theory Spec2Isabelle
  imports Complex_Main
begin

section \<open>The rail network animation of \<open>src/main.py\<close>\<close>

text \<open>
  The program loads cities and timed connections, lays the cities out on a fixed
  geographic box and, frame by frame, moves a marker along the connections while a
  clock advances. This theory embeds the data model (\<open>City\<close>, \<open>Connection\<close>,
  \<open>RailNetwork\<close>), the graph derivation, the frame schedule and the per-frame
  \<open>update\<close> of \<open>RailNetworkVisualizer\<close>.

  Conventions of the embedding:
  \<^item> Frame counts and frame indices are Python's unbounded integers (\<open>int\<close>). The
    numbers that may be floats (coordinates, durations in hours) are treated twice:
    as exact reals, for the properties that no rounding can change (the travel-frame
    count, the empty schedule, the direction of the clock, the layout, the graph),
    and over an arithmetic taken as a parameter, for the properties that rest on the
    stop-frame counts, which come out of \<open>int()\<close> of a float product.
  \<^item> An exception is a value \<open>Inl e\<close> of a sum type.
  \<^item> The clock is a \<open>datetime\<close>: a count of microseconds, here counted from
    1900-01-01 00:00, the date \<open>strptime("06:00", "%H:%M")\<close> fills in. A
    \<open>timedelta\<close> is a whole number of microseconds, rounded half to even from its
    argument. The calendar range of \<open>datetime\<close> is part of the second treatment
    only.
  \<^item> Drawing (canvas, background image, graph layout, clock text) is left out; of each
    frame the model keeps the marker that \<open>ax.plot\<close> receives, if any.
\<close>

subsection \<open>Errors and numeric helpers\<close>

text \<open>
  \<open>InvalidScheduleError\<close> is the error the specification names for an empty
  schedule; no line of the source raises it.
\<close>

datatype py_error =
  ZeroDivisionError | KeyError | IndexError | OverflowError | ValueError | InvalidScheduleError

text \<open>Python's \<open>int(x)\<close> on a float: truncation toward zero.\<close>

definition py_int :: "real \<Rightarrow> int" where
  "py_int x = (if 0 \<le> x then \<lfloor>x\<rfloor> else \<lceil>x\<rceil>)"

text \<open>Rounding half to even, as \<open>round\<close> and the \<open>timedelta\<close> constructor do.\<close>

definition round_half_even :: "real \<Rightarrow> int" where
  "round_half_even x =
     (let f = \<lfloor>x\<rfloor>; d = x - of_int f
      in if d < 1 / 2 then f
         else if 1 / 2 < d then f + 1
         else if even f then f else f + 1)"

definition timedelta_hours :: "real \<Rightarrow> int" where
  "timedelta_hours h = round_half_even (h * 3600000000)"

definition timedelta_minutes :: "real \<Rightarrow> int" where
  "timedelta_minutes m = round_half_even (m * 60000000)"

text \<open>\<open>strftime("%H:%M")\<close>: the hour and the minute of a clock value.\<close>

definition strftime_HM :: "int \<Rightarrow> int \<times> int" where
  "strftime_HM t = ((t div 3600000000) mod 24, (t div 60000000) mod 60)"

subsection \<open>Cities and connections\<close>

record City =
  name :: string
  coordinates :: "real \<times> real"

text \<open>
  \<open>City.normalize_coordinates\<close>: both divisions raise on a box of width or height
  zero; the x coordinate is computed first.
\<close>

definition normalize_coordinates ::
  "City \<Rightarrow> real \<Rightarrow> real \<Rightarrow> real \<Rightarrow> real \<Rightarrow> py_error + (real \<times> real)" where
  "normalize_coordinates city min_x max_x min_y max_y =
     (if max_x - min_x = 0 then Inl ZeroDivisionError
      else if max_y - min_y = 0 then Inl ZeroDivisionError
      else Inr ((fst (coordinates city) - min_x) / (max_x - min_x) * 2 - 1,
                (snd (coordinates city) - min_y) / (max_y - min_y) * 2 - 1))"

text \<open>
  The inverse linear map in the words of the specification, from the normalized
  square back to the bounding box; the source has no such function.
\<close>

definition spec_inverse_coordinates ::
  "real \<times> real \<Rightarrow> real \<Rightarrow> real \<Rightarrow> real \<Rightarrow> real \<Rightarrow> real \<times> real" where
  "spec_inverse_coordinates p min_x max_x min_y max_y =
     (min_x + (fst p + 1) / 2 * (max_x - min_x),
      min_y + (snd p + 1) / 2 * (max_y - min_y))"

record Connection =
  start_city :: string
  end_city :: string
  duration :: real

subsection \<open>The network and its graph\<close>

text \<open>
  The \<open>networkx\<close> graph is simple and undirected: a set of nodes and a symmetric
  adjacency table holding the edge weight. \<open>add_edge\<close> adds both endpoints as nodes
  when they are missing and overwrites the weight of an edge that exists.
\<close>

record Graph =
  nodes :: "string set"
  adj :: "string \<Rightarrow> string \<rightharpoonup> real"

definition empty_graph :: Graph where
  "empty_graph = \<lparr>nodes = {}, adj = (\<lambda>u. Map.empty)\<rparr>"

definition add_node :: "string \<Rightarrow> Graph \<Rightarrow> Graph" where
  "add_node n g = g\<lparr>nodes := insert n (nodes g)\<rparr>"

definition add_edge :: "string \<Rightarrow> string \<Rightarrow> real \<Rightarrow> Graph \<Rightarrow> Graph" where
  "add_edge u v w g =
     (let a1 = (adj g)(u := (adj g u)(v \<mapsto> w));
          a2 = a1(v := (a1 v)(u \<mapsto> w))
      in g\<lparr>nodes := insert v (insert u (nodes g)), adj := a2\<rparr>)"

text \<open>The edges of a graph, each as the unordered pair of its endpoints.\<close>

definition edge_set :: "Graph \<Rightarrow> string set set" where
  "edge_set g = {{u, v} | u v. adj g u v \<noteq> None}"

text \<open>
  \<open>cities\<close> is a dictionary keyed by name; it is kept as an association list in
  insertion order, since the constructor of the visualizer iterates over its values.
\<close>

record RailNetwork =
  cities :: "(string \<times> City) list"
  connections :: "Connection list"
  graph :: Graph

definition RailNetwork_init :: RailNetwork where
  "RailNetwork_init = \<lparr>cities = [], connections = [], graph = empty_graph\<rparr>"

fun dict_set :: "'k \<Rightarrow> 'v \<Rightarrow> ('k \<times> 'v) list \<Rightarrow> ('k \<times> 'v) list" where
  "dict_set k v [] = [(k, v)]"
| "dict_set k v ((k', v') # kvs) =
     (if k' = k then (k, v) # kvs else (k', v') # dict_set k v kvs)"

definition add_city :: "City \<Rightarrow> RailNetwork \<Rightarrow> RailNetwork" where
  "add_city city net = net\<lparr>cities := dict_set (name city) city (cities net)\<rparr>"

definition add_connection :: "Connection \<Rightarrow> RailNetwork \<Rightarrow> RailNetwork" where
  "add_connection connection net = net\<lparr>connections := connections net @ [connection]\<rparr>"

text \<open>The declared cities: the names of the cities held in \<open>cities.values()\<close>.\<close>

definition city_names :: "RailNetwork \<Rightarrow> string set" where
  "city_names net = (\<lambda>(k, city). name city) ` set (cities net)"

definition build_graph :: "RailNetwork \<Rightarrow> RailNetwork" where
  "build_graph net =
     (let g1 = fold (\<lambda>(k, city). add_node (name city)) (cities net) (graph net);
          g2 = fold (\<lambda>c. add_edge (start_city c) (end_city c) (duration c)) (connections net) g1
      in net\<lparr>graph := g2\<rparr>)"

text \<open>
  The parsed JSON description: the entries of \<open>data['cities']\<close> (name, coordinates)
  and of \<open>data['connections']\<close> (start city, end city, duration), in file order.
\<close>

record json_data =
  json_cities :: "(string \<times> (real \<times> real)) list"
  json_connections :: "(string \<times> string \<times> real) list"

definition load_from_json :: "json_data \<Rightarrow> RailNetwork \<Rightarrow> RailNetwork" where
  "load_from_json data net =
     (let net1 = fold (\<lambda>(n, xy). add_city \<lparr>name = n, coordinates = xy\<rparr>) (json_cities data) net
      in fold (\<lambda>(s, e, d). add_connection \<lparr>start_city = s, end_city = e, duration = d\<rparr>)
           (json_connections data) net1)"

subsection \<open>The visualizer: frame schedule and per-frame update\<close>

text \<open>
  The fields of the visualizer that the schedule and the clock use. Its \<open>duration\<close>,
  the length of the video in seconds, is \<open>duration_seconds\<close> here, \<open>duration\<close> being the
  field of \<open>Connection\<close>; the figure, the axes and the image belong to the drawing.
\<close>

record 'n RailNetworkVisualizer =
  rail_network :: RailNetwork
  show_live :: bool
  duration_seconds :: int
  pos :: "string \<rightharpoonup> 'n \<times> 'n"
  start_time :: int
  current_time :: int
  total_frames :: int
  stop_durations :: "'n list"

text \<open>
  The dictionary comprehension of the constructor: every city of \<open>cities.values()\<close>,
  in order, stored under its name with the default bounding box.
\<close>

fun build_pos ::
  "(string \<times> City) list \<Rightarrow> (string \<rightharpoonup> real \<times> real) \<Rightarrow> py_error + (string \<rightharpoonup> real \<times> real)" where
  "build_pos [] m = Inr m"
| "build_pos ((k, city) # rest) m =
     (case normalize_coordinates city 8 13 54 58 of
        Inl e \<Rightarrow> Inl e
      | Inr p \<Rightarrow> build_pos rest (m(name city \<mapsto> p)))"

definition calculate_frames_and_stops ::
  "real RailNetworkVisualizer \<Rightarrow> py_error + real RailNetworkVisualizer" where
  "calculate_frames_and_stops v =
     (let total_travel_time = sum_list (map duration (connections (rail_network v)));
          total_stop_time = total_travel_time * 0.2;
          n = length (connections (rail_network v))
      in if n = 0 then Inl ZeroDivisionError
         else Inr (v\<lparr>stop_durations := replicate n (total_stop_time / of_nat n),
                     total_frames := duration_seconds v * 10\<rparr>))"

definition RailNetworkVisualizer_init ::
  "RailNetwork \<Rightarrow> bool \<Rightarrow> int \<Rightarrow> py_error + real RailNetworkVisualizer" where
  "RailNetworkVisualizer_init net live dur =
     (case build_pos (cities net) Map.empty of
        Inl e \<Rightarrow> Inl e
      | Inr p \<Rightarrow>
          calculate_frames_and_stops
            \<lparr>rail_network = net, show_live = live, duration_seconds = dur, pos = p,
             start_time = 21600000000, current_time = 21600000000,
             total_frames = 0, stop_durations = []\<rparr>)"

text \<open>
  The two frame counts \<open>update\<close> computes for the connection at index \<open>idx\<close>
  (lines 174 and 175), and the value of \<open>cumulative_frames\<close> when the loop reaches
  index \<open>k\<close>.
\<close>

definition travel_frames :: "'n RailNetworkVisualizer \<Rightarrow> int" where
  "travel_frames v = total_frames v div int (length (connections (rail_network v)))"

definition stop_frames :: "real RailNetworkVisualizer \<Rightarrow> nat \<Rightarrow> int" where
  "stop_frames v idx = py_int (stop_durations v ! idx * 10)"

definition cumulative :: "real RailNetworkVisualizer \<Rightarrow> nat \<Rightarrow> int" where
  "cumulative v k = (\<Sum>i<k. travel_frames v + stop_frames v i)"

text \<open>
  Frame \<open>f\<close> lies in the travel sub-range, respectively the stop sub-range, of the
  connection at index \<open>k\<close>: the two tests of lines 177 and 187.
\<close>

definition in_travel :: "real RailNetworkVisualizer \<Rightarrow> nat \<Rightarrow> int \<Rightarrow> bool" where
  "in_travel v k f \<longleftrightarrow> cumulative v k \<le> f \<and> f < cumulative v k + travel_frames v"

definition in_stop :: "real RailNetworkVisualizer \<Rightarrow> nat \<Rightarrow> int \<Rightarrow> bool" where
  "in_stop v k f \<longleftrightarrow>
     cumulative v k + travel_frames v \<le> f \<and>
     f < cumulative v k + travel_frames v + stop_frames v k"

text \<open>
  The loop of \<open>update\<close> over \<open>enumerate(connections)\<close>, from index \<open>idx\<close> on with
  \<open>cumulative_frames = cum\<close>. It returns the visualizer with its clock advanced and
  the marker plotted, \<open>None\<close> when no connection matches. In the travel branch
  \<open>travel_frames\<close> is positive, so neither division can raise.
\<close>

fun update_loop ::
  "real RailNetworkVisualizer \<Rightarrow> int \<Rightarrow> nat \<Rightarrow> Connection list \<Rightarrow> int \<Rightarrow>
     py_error + (real RailNetworkVisualizer \<times> (real \<times> real) option)" where
  "update_loop v frame idx [] cumulative_frames = Inr (v, None)"
| "update_loop v frame idx (connection # rest) cumulative_frames =
     (if \<not> idx < length (stop_durations v) then Inl IndexError
      else if cumulative_frames \<le> frame \<and> frame < cumulative_frames + travel_frames v then
        (let i = frame - cumulative_frames
         in case pos v (start_city connection) of
              None \<Rightarrow> Inl KeyError
            | Some (x_start, y_start) \<Rightarrow>
                (case pos v (end_city connection) of
                   None \<Rightarrow> Inl KeyError
                 | Some (x_end, y_end) \<Rightarrow>
                     Inr (v\<lparr>current_time := current_time v
                              + timedelta_hours (duration connection * (1 / of_int (travel_frames v)))\<rparr>,
                          Some (x_start + (x_end - x_start) * of_int i / of_int (travel_frames v),
                                y_start + (y_end - y_start) * of_int i / of_int (travel_frames v)))))
      else if cumulative_frames + travel_frames v \<le> frame
              \<and> frame < cumulative_frames + travel_frames v + stop_frames v idx then
        (case pos v (end_city connection) of
           None \<Rightarrow> Inl KeyError
         | Some (x, y) \<Rightarrow>
             Inr (v\<lparr>current_time := current_time v
                      + timedelta_minutes (stop_durations v ! idx / 10)\<rparr>,
                  Some (x, y)))
      else update_loop v frame (Suc idx) rest
             (cumulative_frames + travel_frames v + stop_frames v idx))"

definition update ::
  "real RailNetworkVisualizer \<Rightarrow> int \<Rightarrow> py_error + (real RailNetworkVisualizer \<times> (real \<times> real) option)" where
  "update v frame = update_loop v frame 0 (connections (rail_network v)) 0"

text \<open>
  A sequence of \<open>update\<close> calls, one per frame of the list: the clock values after
  each call, up to the first call that raises.
\<close>

fun clock_trace :: "real RailNetworkVisualizer \<Rightarrow> int list \<Rightarrow> int list" where
  "clock_trace v [] = []"
| "clock_trace v (f # fs) =
     (case update v f of
        Inl e \<Rightarrow> []
      | Inr (v', m) \<Rightarrow> current_time v' # clock_trace v' fs)"

text \<open>The visualizer after a sequence of \<open>update\<close> calls; the first exception ends it.\<close>

fun updates :: "real RailNetworkVisualizer \<Rightarrow> int list \<Rightarrow> py_error + real RailNetworkVisualizer" where
  "updates v [] = Inr v"
| "updates v (f # fs) =
     (case update v f of
        Inl e \<Rightarrow> Inl e
      | Inr (v', m) \<Rightarrow> updates v' fs)"

text \<open>
  \<open>animate\<close> has the frames \<open>range(total_frames)\<close> rendered through \<open>update\<close>, one after
  the other; the markers of the rendered frames are collected, and an exception ends
  the run. The call on frame 0 that the animation library makes once more for its
  first draw, and what the file writer does with no frame at all, are left out. The
  last lines of the script build the visualizer and animate it.
\<close>

fun render_frames ::
  "real RailNetworkVisualizer \<Rightarrow> int list \<Rightarrow> py_error + (real \<times> real) option list" where
  "render_frames v [] = Inr []"
| "render_frames v (f # fs) =
     (case update v f of
        Inl e \<Rightarrow> Inl e
      | Inr (v', m) \<Rightarrow>
          (case render_frames v' fs of
             Inl e \<Rightarrow> Inl e
           | Inr ms \<Rightarrow> Inr (m # ms)))"

definition animate :: "real RailNetworkVisualizer \<Rightarrow> py_error + (real \<times> real) option list" where
  "animate v = render_frames v (map int [0..<nat (total_frames v)])"

definition visualize ::
  "RailNetwork \<Rightarrow> bool \<Rightarrow> int \<Rightarrow> py_error + (real \<times> real) option list" where
  "visualize net live dur =
     (case RailNetworkVisualizer_init net live dur of
        Inl e \<Rightarrow> Inl e
      | Inr v \<Rightarrow> animate v)"

subsection \<open>The schedule and the update over the machine's arithmetic\<close>

text \<open>
  The frame counts come out of \<open>int()\<close> applied to a product of floats, so which
  frame belongs to which connection depends on how the machine rounds. The
  definitions of this subsection are the same functions of the source with the
  arithmetic taken as a parameter: a Python number is an \<open>int\<close>, a finite float with
  its exact value, an infinity or a NaN; every arithmetic operation of the parameter
  returns a number or raises; \<open>int()\<close> and \<open>round()\<close> of a float are exact and are
  defined here. What is proved for every such arithmetic holds of the arithmetic
  Python performs.
\<close>

datatype pynum = PyInt int | PyFloat real | PyInf bool | PyNaN

record arith =
  fl_num :: "real \<Rightarrow> pynum"
  fl_lit_0_2 :: pynum
  fl_add :: "pynum \<Rightarrow> pynum \<Rightarrow> py_error + pynum"
  fl_sub :: "pynum \<Rightarrow> pynum \<Rightarrow> py_error + pynum"
  fl_mul :: "pynum \<Rightarrow> pynum \<Rightarrow> py_error + pynum"
  fl_truediv :: "pynum \<Rightarrow> pynum \<Rightarrow> py_error + pynum"
  fl_sum :: "pynum list \<Rightarrow> py_error + pynum"
  fl_timedelta_hours :: "pynum \<Rightarrow> py_error + int"
  fl_timedelta_minutes :: "pynum \<Rightarrow> py_error + int"

text \<open>
  \<open>fl_num\<close> is the number \<open>json.load\<close> returns for a JSON number, \<open>fl_lit_0_2\<close> the
  literal \<open>0.2\<close>, \<open>fl_sum\<close> the builtin \<open>sum\<close>, \<open>fl_truediv\<close> the operator \<open>/\<close> on a
  divisor that is not zero, and the two \<open>timedelta\<close> fields the constructor with
  \<open>hours=\<close> or \<open>minutes=\<close>, in microseconds.
\<close>

text \<open>Sequencing: the first exception ends the computation.\<close>

definition try_then :: "py_error + 'a \<Rightarrow> ('a \<Rightarrow> py_error + 'b) \<Rightarrow> py_error + 'b" where
  "try_then r f = (case r of Inl e \<Rightarrow> Inl e | Inr x \<Rightarrow> f x)"

text \<open>
  \<open>int(x)\<close>: the integer itself, the float truncated toward zero, \<open>OverflowError\<close> for
  an infinity and \<open>ValueError\<close> for a NaN; \<open>round(x)\<close> rounds half to even.
\<close>

fun to_int :: "pynum \<Rightarrow> py_error + int" where
  "to_int (PyInt n) = Inr n"
| "to_int (PyFloat r) = Inr (py_int r)"
| "to_int (PyInf b) = Inl OverflowError"
| "to_int PyNaN = Inl ValueError"

fun py_round :: "pynum \<Rightarrow> py_error + int" where
  "py_round (PyInt n) = Inr n"
| "py_round (PyFloat r) = Inr (round_half_even r)"
| "py_round (PyInf b) = Inl OverflowError"
| "py_round PyNaN = Inl ValueError"

text \<open>
  \<open>datetime + timedelta\<close> is exact and raises \<open>OverflowError\<close> outside the years 1 to
  9999; the bounds are \<open>datetime.min\<close> and \<open>datetime.max\<close> in microseconds from
  1900-01-01 00:00.
\<close>

definition datetime_add :: "int \<Rightarrow> int \<Rightarrow> py_error + int" where
  "datetime_add t delta =
     (if - 59926608000000000 \<le> t + delta \<and> t + delta \<le> 255611289599999999
      then Inr (t + delta) else Inl OverflowError)"

text \<open>
  \<open>City.normalize_coordinates\<close> with integer bounds, as the constructor calls it:
  \<open>(c - min) / (max - min) * 2 - 1\<close> for each coordinate, the x coordinate first.
\<close>

definition normalize_axis_fl :: "arith \<Rightarrow> real \<Rightarrow> int \<Rightarrow> int \<Rightarrow> py_error + pynum" where
  "normalize_axis_fl a c lo hi =
     try_then (fl_sub a (fl_num a c) (PyInt lo)) (\<lambda>d.
       if hi - lo = 0 then Inl ZeroDivisionError
       else try_then (fl_truediv a d (PyInt (hi - lo))) (\<lambda>q.
              try_then (fl_mul a q (PyInt 2)) (\<lambda>m. fl_sub a m (PyInt 1))))"

definition normalize_coordinates_fl ::
  "arith \<Rightarrow> City \<Rightarrow> int \<Rightarrow> int \<Rightarrow> int \<Rightarrow> int \<Rightarrow> py_error + (pynum \<times> pynum)" where
  "normalize_coordinates_fl a city min_x max_x min_y max_y =
     try_then (normalize_axis_fl a (fst (coordinates city)) min_x max_x) (\<lambda>norm_x.
       try_then (normalize_axis_fl a (snd (coordinates city)) min_y max_y) (\<lambda>norm_y.
         Inr (norm_x, norm_y)))"

fun build_pos_fl ::
  "arith \<Rightarrow> (string \<times> City) list \<Rightarrow> (string \<rightharpoonup> pynum \<times> pynum)
     \<Rightarrow> py_error + (string \<rightharpoonup> pynum \<times> pynum)" where
  "build_pos_fl a [] m = Inr m"
| "build_pos_fl a ((k, city) # rest) m =
     (case normalize_coordinates_fl a city 8 13 54 58 of
        Inl e \<Rightarrow> Inl e
      | Inr p \<Rightarrow> build_pos_fl a rest (m(name city \<mapsto> p)))"

definition calculate_frames_and_stops_fl ::
  "arith \<Rightarrow> pynum RailNetworkVisualizer \<Rightarrow> py_error + pynum RailNetworkVisualizer" where
  "calculate_frames_and_stops_fl a v =
     try_then (fl_sum a (map (\<lambda>connection. fl_num a (duration connection))
                          (connections (rail_network v)))) (\<lambda>total_travel_time.
       try_then (fl_mul a total_travel_time (fl_lit_0_2 a)) (\<lambda>total_stop_time.
         let n = length (connections (rail_network v))
         in if n = 0 then Inl ZeroDivisionError
            else try_then (fl_truediv a total_stop_time (PyInt (int n))) (\<lambda>stop_duration.
                   Inr (v\<lparr>stop_durations := replicate n stop_duration,
                           total_frames := duration_seconds v * 10\<rparr>))))"

definition RailNetworkVisualizer_init_fl ::
  "arith \<Rightarrow> RailNetwork \<Rightarrow> bool \<Rightarrow> int \<Rightarrow> py_error + pynum RailNetworkVisualizer" where
  "RailNetworkVisualizer_init_fl a net live dur =
     (case build_pos_fl a (cities net) Map.empty of
        Inl e \<Rightarrow> Inl e
      | Inr p \<Rightarrow>
          calculate_frames_and_stops_fl a
            \<lparr>rail_network = net, show_live = live, duration_seconds = dur, pos = p,
             start_time = 21600000000, current_time = 21600000000,
             total_frames = 0, stop_durations = []\<rparr>)"

text \<open>Line 175, \<open>int(self.stop_durations[idx] * 10)\<close>, and the same with \<open>round\<close>.\<close>

definition stop_frames_fl :: "arith \<Rightarrow> pynum RailNetworkVisualizer \<Rightarrow> nat \<Rightarrow> py_error + int" where
  "stop_frames_fl a v idx = try_then (fl_mul a (stop_durations v ! idx) (PyInt 10)) to_int"

definition spec_stop_frames_fl ::
  "arith \<Rightarrow> pynum RailNetworkVisualizer \<Rightarrow> nat \<Rightarrow> py_error + int" where
  "spec_stop_frames_fl a v idx = try_then (fl_mul a (stop_durations v ! idx) (PyInt 10)) py_round"

text \<open>
  Lines 181 and 182, \<open>start + (end - start) * i / travel_frames\<close>, and the argument and
  the result of the \<open>timedelta\<close> of line 184 and of line 190.
\<close>

definition interpolate :: "arith \<Rightarrow> pynum \<Rightarrow> pynum \<Rightarrow> int \<Rightarrow> int \<Rightarrow> py_error + pynum" where
  "interpolate a start end i tf =
     try_then (fl_sub a end start) (\<lambda>d.
       try_then (fl_mul a d (PyInt i)) (\<lambda>p.
         try_then (fl_truediv a p (PyInt tf)) (\<lambda>q. fl_add a start q)))"

definition travel_timedelta :: "arith \<Rightarrow> real \<Rightarrow> int \<Rightarrow> py_error + int" where
  "travel_timedelta a dur tf =
     try_then (fl_truediv a (PyInt 1) (PyInt tf)) (\<lambda>r.
       try_then (fl_mul a (fl_num a dur) r) (fl_timedelta_hours a))"

definition stop_timedelta :: "arith \<Rightarrow> pynum \<Rightarrow> py_error + int" where
  "stop_timedelta a stop_duration =
     try_then (fl_truediv a stop_duration (PyInt 10)) (fl_timedelta_minutes a)"

text \<open>
  \<open>self.current_time += delta\<close>: the visualizer with the new clock, or the exception
  of the \<open>timedelta\<close> or of the addition.
\<close>

definition advance_clock ::
  "'n RailNetworkVisualizer \<Rightarrow> py_error + int \<Rightarrow> py_error + 'n RailNetworkVisualizer" where
  "advance_clock v delta =
     try_then delta (\<lambda>d.
       try_then (datetime_add (current_time v) d) (\<lambda>t. Inr (v\<lparr>current_time := t\<rparr>)))"

text \<open>
  The loop of \<open>update\<close>. A frame yields the marker that was plotted, if the frame got
  that far, and then the visualizer or the exception that ended the call: the marker
  is plotted before the clock is advanced, so a call can plot and then raise. The
  stop-frame count is computed at the head of every iteration, before the tests. In
  the travel branch \<open>travel_frames\<close> is positive, so the two divisions by it are
  divisions by an \<open>int\<close> that is not zero.
\<close>

fun update_loop_fl ::
  "arith \<Rightarrow> pynum RailNetworkVisualizer \<Rightarrow> int \<Rightarrow> nat \<Rightarrow> Connection list \<Rightarrow> int \<Rightarrow>
     (pynum \<times> pynum) option \<times> (py_error + pynum RailNetworkVisualizer)" where
  "update_loop_fl a v frame idx [] cumulative_frames = (None, Inr v)"
| "update_loop_fl a v frame idx (connection # rest) cumulative_frames =
     (if \<not> idx < length (stop_durations v) then (None, Inl IndexError)
      else
        case stop_frames_fl a v idx of
          Inl e \<Rightarrow> (None, Inl e)
        | Inr stop_count \<Rightarrow>
            if cumulative_frames \<le> frame \<and> frame < cumulative_frames + travel_frames v then
              (let i = frame - cumulative_frames
               in case pos v (start_city connection) of
                    None \<Rightarrow> (None, Inl KeyError)
                  | Some (x_start, y_start) \<Rightarrow>
                      (case pos v (end_city connection) of
                         None \<Rightarrow> (None, Inl KeyError)
                       | Some (x_end, y_end) \<Rightarrow>
                           (case interpolate a x_start x_end i (travel_frames v) of
                              Inl e \<Rightarrow> (None, Inl e)
                            | Inr x \<Rightarrow>
                                (case interpolate a y_start y_end i (travel_frames v) of
                                   Inl e \<Rightarrow> (None, Inl e)
                                 | Inr y \<Rightarrow>
                                     (Some (x, y),
                                      advance_clock v
                                        (travel_timedelta a (duration connection)
                                           (travel_frames v)))))))
            else if cumulative_frames + travel_frames v \<le> frame
                    \<and> frame < cumulative_frames + travel_frames v + stop_count then
              (case pos v (end_city connection) of
                 None \<Rightarrow> (None, Inl KeyError)
               | Some (x, y) \<Rightarrow>
                   (Some (x, y), advance_clock v (stop_timedelta a (stop_durations v ! idx))))
            else update_loop_fl a v frame (Suc idx) rest
                   (cumulative_frames + travel_frames v + stop_count))"

definition update_fl ::
  "arith \<Rightarrow> pynum RailNetworkVisualizer \<Rightarrow> int
     \<Rightarrow> (pynum \<times> pynum) option \<times> (py_error + pynum RailNetworkVisualizer)" where
  "update_fl a v frame = update_loop_fl a v frame 0 (connections (rail_network v)) 0"

text \<open>
  The value of \<open>cumulative_frames\<close> when the loop reaches index \<open>k\<close>, for travel-frame
  count \<open>tf\<close> and stop-frame counts \<open>sf\<close>, and the two range tests of lines 177 and
  187 for the connection at index \<open>k\<close>.
\<close>

definition cumulative_frames_at :: "int \<Rightarrow> (nat \<Rightarrow> int) \<Rightarrow> nat \<Rightarrow> int" where
  "cumulative_frames_at tf sf k = (\<Sum>i<k. tf + sf i)"

definition travel_range :: "int \<Rightarrow> (nat \<Rightarrow> int) \<Rightarrow> nat \<Rightarrow> int \<Rightarrow> bool" where
  "travel_range tf sf k f \<longleftrightarrow>
     cumulative_frames_at tf sf k \<le> f \<and> f < cumulative_frames_at tf sf k + tf"

definition stop_range :: "int \<Rightarrow> (nat \<Rightarrow> int) \<Rightarrow> nat \<Rightarrow> int \<Rightarrow> bool" where
  "stop_range tf sf k f \<longleftrightarrow>
     cumulative_frames_at tf sf k + tf \<le> f \<and> f < cumulative_frames_at tf sf k + tf + sf k"

text \<open>
  Arithmetic without rounding, for computing examples: every operation returns the
  exact result as a float, and a \<open>timedelta\<close> is its argument rounded half to even
  to the microsecond.
\<close>

fun num_value :: "pynum \<Rightarrow> real" where
  "num_value (PyInt n) = of_int n"
| "num_value (PyFloat r) = r"
| "num_value (PyInf b) = 0"
| "num_value PyNaN = 0"

definition exact_arith :: arith where
  "exact_arith =
     \<lparr>fl_num = PyFloat,
      fl_lit_0_2 = PyFloat (1 / 5),
      fl_add = (\<lambda>x y. Inr (PyFloat (num_value x + num_value y))),
      fl_sub = (\<lambda>x y. Inr (PyFloat (num_value x - num_value y))),
      fl_mul = (\<lambda>x y. Inr (PyFloat (num_value x * num_value y))),
      fl_truediv = (\<lambda>x y. Inr (PyFloat (num_value x / num_value y))),
      fl_sum = (\<lambda>xs. Inr (PyFloat (sum_list (map num_value xs)))),
      fl_timedelta_hours = (\<lambda>h. Inr (round_half_even (num_value h * 3600000000))),
      fl_timedelta_minutes = (\<lambda>m. Inr (round_half_even (num_value m * 60000000)))\<rparr>"

subsection \<open>Example networks\<close>

text \<open>
  Two cities at opposite corners of the default box and one connection of one hour.
\<close>

definition scenario_network :: RailNetwork where
  "scenario_network =
     load_from_json
       \<lparr>json_cities = [(''A'', (8, 54)), (''B'', (13, 58))],
        json_connections = [(''A'', ''B'', 1)]\<rparr>
       RailNetwork_init"

text \<open>Three cities on a line and two connections, of two hours and of one hour.\<close>

definition line_network :: RailNetwork where
  "line_network =
     load_from_json
       \<lparr>json_cities = [(''A'', (8, 54)), (''B'', (10, 56)), (''C'', (13, 58))],
        json_connections = [(''A'', ''B'', 2), (''B'', ''C'', 1)]\<rparr>
       RailNetwork_init"

text \<open>
  A network whose only connection has a negative duration: the loader accepts any
  JSON number.
\<close>

definition negative_network :: RailNetwork where
  "negative_network =
     load_from_json
       \<lparr>json_cities = [(''A'', (8, 54)), (''B'', (13, 58))],
        json_connections = [(''A'', ''B'', - 3 / 2)]\<rparr>
       RailNetwork_init"

text \<open>
  The visualizers the constructor builds for the first two, for 10 seconds and for
  12 seconds.
\<close>

definition scenario_visualizer :: "real RailNetworkVisualizer" where
  "scenario_visualizer = projr (RailNetworkVisualizer_init scenario_network False 10)"

definition line_visualizer :: "real RailNetworkVisualizer" where
  "line_visualizer = projr (RailNetworkVisualizer_init line_network False 12)"

text \<open>A single connection of 1.4 hours, and a network with cities but no connection.\<close>

definition fraction_network :: RailNetwork where
  "fraction_network =
     load_from_json
       \<lparr>json_cities = [(''A'', (8, 54)), (''B'', (13, 58))],
        json_connections = [(''A'', ''B'', 7 / 5)]\<rparr>
       RailNetwork_init"

definition fraction_visualizer :: "real RailNetworkVisualizer" where
  "fraction_visualizer = projr (RailNetworkVisualizer_init fraction_network False 10)"

definition idle_network :: RailNetwork where
  "idle_network =
     load_from_json
       \<lparr>json_cities = [(''A'', (8, 54)), (''B'', (13, 58))], json_connections = []\<rparr>
       RailNetwork_init"

text \<open>A connection to a city that is not declared.\<close>

definition dangling_network :: RailNetwork where
  "dangling_network =
     load_from_json
       \<lparr>json_cities = [(''A'', (8, 54))], json_connections = [(''A'', ''B'', 1)]\<rparr>
       RailNetwork_init"



text \<open>
  The visualizers the constructor builds in arithmetic without rounding, for 12
  seconds, for 10 seconds and for 1 second.
\<close>

definition line_visualizer_fl :: "pynum RailNetworkVisualizer" where
  "line_visualizer_fl = projr (RailNetworkVisualizer_init_fl exact_arith line_network False 12)"

definition fraction_visualizer_fl :: "pynum RailNetworkVisualizer" where
  "fraction_visualizer_fl = projr (RailNetworkVisualizer_init_fl exact_arith fraction_network False 10)"

definition negative_visualizer_fl :: "pynum RailNetworkVisualizer" where
  "negative_visualizer_fl = projr (RailNetworkVisualizer_init_fl exact_arith negative_network False 1)"



section \<open>Properties\<close>

subsection \<open>The constructor\<close>

lemma normalize_default:
  "normalize_coordinates city 8 13 54 58 =
     Inr ((fst (coordinates city) - 8) / 5 * 2 - 1, (snd (coordinates city) - 54) / 4 * 2 - 1)"
  by (simp add: normalize_coordinates_def)

lemma build_pos_total: "\<exists>p. build_pos cs m = Inr p"
proof (induction cs arbitrary: m)
  case Nil
  show ?case by simp
next
  case (Cons kc cs)
  obtain k city where kc: "kc = (k, city)" by (cases kc)
  show ?case unfolding kc by (simp add: normalize_default Cons.IH)
qed

lemma init_total:
  assumes "connections net \<noteq> []"
  shows "\<exists>v. RailNetworkVisualizer_init net live D = Inr v"
proof -
  obtain p where "build_pos (cities net) Map.empty = Inr p"
    using build_pos_total by blast
  then show ?thesis
    using assms
    by (simp add: RailNetworkVisualizer_init_def calculate_frames_and_stops_def Let_def)
qed

lemma init_fields:
  assumes "RailNetworkVisualizer_init net live D = Inr v"
  shows "rail_network v = net"
    and "connections net \<noteq> []"
    and "total_frames v = D * 10"
    and "stop_durations v =
           replicate (length (connections net))
             (sum_list (map duration (connections net)) * 0.2 / of_nat (length (connections net)))"
    and "current_time v = 21600000000"
    and "build_pos (cities net) Map.empty = Inr (pos v)"
  using assms
  by (auto simp: RailNetworkVisualizer_init_def calculate_frames_and_stops_def Let_def
           split: sum.splits if_splits)

lemma scenario_connections:
  "connections scenario_network = [\<lparr>start_city = ''A'', end_city = ''B'', duration = 1\<rparr>]"
  by (simp add: scenario_network_def load_from_json_def add_city_def add_connection_def
        RailNetwork_init_def)

lemma line_connections:
  "connections line_network =
     [\<lparr>start_city = ''A'', end_city = ''B'', duration = 2\<rparr>,
      \<lparr>start_city = ''B'', end_city = ''C'', duration = 1\<rparr>]"
  by (simp add: line_network_def load_from_json_def add_city_def add_connection_def
        RailNetwork_init_def)

subsection \<open>Frame counts\<close>

text \<open>
  Claim C2. For a network with at least one connection and a requested duration of
  \<open>D\<close> seconds the constructor succeeds, the total frame count is \<open>D * 10\<close>, and the
  travel-frame counts of the connections add up to the total frame count less the
  remainder of the integer division by the number of connections: the remainder is
  dropped.
\<close>

theorem total_frames_and_travel_sum:
  assumes "connections net \<noteq> []"
  shows "\<exists>v. RailNetworkVisualizer_init net live D = Inr v \<and>
           total_frames v = D * 10 \<and>
           (\<Sum>i<length (connections net). travel_frames v)
             = total_frames v - total_frames v mod int (length (connections net)) \<and>
           0 \<le> total_frames v mod int (length (connections net)) \<and>
           total_frames v mod int (length (connections net)) < int (length (connections net))"
proof -
  obtain v where v: "RailNetworkVisualizer_init net live D = Inr v"
    using init_total [OF assms] by blast
  have n: "0 < int (length (connections net))" using assms by simp
  have "(\<Sum>i<length (connections net). travel_frames v)
          = int (length (connections net)) * (total_frames v div int (length (connections net)))"
    by (simp add: travel_frames_def init_fields(1) [OF v])
  also have "\<dots> = total_frames v - total_frames v mod int (length (connections net))"
    by (simp add: minus_mod_eq_mult_div)
  finally show ?thesis
    using v n init_fields(3) [OF v] by auto
qed

theorem total_frames_and_travel_sum_witness:
  "connections line_network \<noteq> [] \<and>
   (\<exists>v. RailNetworkVisualizer_init line_network False 12 = Inr v \<and>
        total_frames v = 120 \<and>
        (\<Sum>i<(2::nat). travel_frames v) = total_frames v - total_frames v mod 2)"
  using total_frames_and_travel_sum [of line_network False 12]
  by (simp add: line_connections)

subsection \<open>The table of positions\<close>

lemma build_pos_lookup:
  assumes "build_pos cs m = Inr p"
  shows "(p n = m n \<and> n \<notin> (\<lambda>(k, city). name city) ` set cs) \<or>
         (\<exists>city xy. city \<in> snd ` set cs \<and> name city = n \<and>
             normalize_coordinates city 8 13 54 58 = Inr xy \<and> p n = Some xy)"
  using assms
proof (induction cs arbitrary: m)
  case Nil
  then show ?case by simp
next
  case (Cons kc cs)
  obtain k city where kc: "kc = (k, city)" by (cases kc)
  obtain xy where xy: "normalize_coordinates city 8 13 54 58 = Inr xy"
    using normalize_default by blast
  have rest: "build_pos cs (m(name city \<mapsto> xy)) = Inr p"
    using Cons.prems by (simp add: kc xy)
  from Cons.IH [OF rest]
  show ?case
  proof
    assume a: "p n = (m(name city \<mapsto> xy)) n \<and> n \<notin> (\<lambda>(k, city). name city) ` set cs"
    show ?thesis
    proof (cases "name city = n")
      case True
      then have "p n = Some xy" using a by simp
      moreover have "city \<in> snd ` set (kc # cs)" by (simp add: kc)
      ultimately show ?thesis using True xy by blast
    next
      case False
      then show ?thesis using a by (auto simp: kc)
    qed
  next
    assume "\<exists>city xy. city \<in> snd ` set cs \<and> name city = n \<and>
             normalize_coordinates city 8 13 54 58 = Inr xy \<and> p n = Some xy"
    then show ?thesis by auto
  qed
qed

lemma pos_declared:
  assumes "RailNetworkVisualizer_init net live D = Inr v" and "n \<in> city_names net"
  shows "\<exists>city xy. city \<in> snd ` set (cities net) \<and> name city = n \<and>
           normalize_coordinates city 8 13 54 58 = Inr xy \<and> pos v n = Some xy"
  using build_pos_lookup [OF init_fields(6) [OF assms(1)], of n] assms(2)
  by (auto simp: city_names_def)

subsection \<open>The frame ranges and the loop of \<open>update\<close>\<close>

text \<open>The schedule does not read the clock.\<close>

lemma clock_irrelevant [simp]:
  "travel_frames (v\<lparr>current_time := t\<rparr>) = travel_frames v"
  "stop_frames (v\<lparr>current_time := t\<rparr>) i = stop_frames v i"
  "cumulative (v\<lparr>current_time := t\<rparr>) k = cumulative v k"
  "in_travel (v\<lparr>current_time := t\<rparr>) k f = in_travel v k f"
  "in_stop (v\<lparr>current_time := t\<rparr>) k f = in_stop v k f"
  by (simp_all add: travel_frames_def stop_frames_def cumulative_def in_travel_def in_stop_def)

text \<open>One iteration that matches neither test moves on to the next connection.\<close>

lemma update_loop_next:
  assumes "idx < length (stop_durations v)"
      and "\<not> (cum \<le> f \<and> f < cum + travel_frames v)"
      and "\<not> (cum + travel_frames v \<le> f \<and> f < cum + travel_frames v + stop_frames v idx)"
  shows "update_loop v f idx (c # rest) cum
           = update_loop v f (Suc idx) rest (cum + travel_frames v + stop_frames v idx)"
proof -
  have "update_loop v f idx (c # rest) cum
          = (if cum \<le> f \<and> f < cum + travel_frames v then
               update_loop v f idx (c # rest) cum
             else if cum + travel_frames v \<le> f \<and> f < cum + travel_frames v + stop_frames v idx then
               update_loop v f idx (c # rest) cum
             else update_loop v f (Suc idx) rest (cum + travel_frames v + stop_frames v idx))"
    using assms(1) by simp
  then show ?thesis using assms(2,3) by (simp only: if_False)
qed

subsection \<open>The example visualizers\<close>

lemma init_projr:
  assumes "connections net \<noteq> []"
  shows "RailNetworkVisualizer_init net live D = Inr (projr (RailNetworkVisualizer_init net live D))"
  using init_total [OF assms, of live D] by auto

lemma line_cities:
  "cities line_network =
     [(''A'', \<lparr>name = ''A'', coordinates = (8, 54)\<rparr>),
      (''B'', \<lparr>name = ''B'', coordinates = (10, 56)\<rparr>),
      (''C'', \<lparr>name = ''C'', coordinates = (13, 58)\<rparr>)]"
  by (simp add: line_network_def load_from_json_def add_city_def add_connection_def
        RailNetwork_init_def)

lemma line_init: "RailNetworkVisualizer_init line_network False 12 = Inr line_visualizer"
  unfolding line_visualizer_def by (rule init_projr) (simp add: line_connections)

lemma negative_connections:
  "connections negative_network = [\<lparr>start_city = ''A'', end_city = ''B'', duration = - 3 / 2\<rparr>]"
  by (simp add: negative_network_def load_from_json_def add_city_def add_connection_def
        RailNetwork_init_def)

lemma negative_cities:
  "cities negative_network =
     [(''A'', \<lparr>name = ''A'', coordinates = (8, 54)\<rparr>),
      (''B'', \<lparr>name = ''B'', coordinates = (13, 58)\<rparr>)]"
  by (simp add: negative_network_def load_from_json_def add_city_def add_connection_def
        RailNetwork_init_def)

lemma timedelta_hours_whole: "timedelta_hours (of_int n / 3600000000) = n"
  by (simp add: timedelta_hours_def round_half_even_def)

text \<open>
  The scenario of one connection of one hour rendered in ten seconds: 100 frames,
  all of them travel frames of the one connection, and two stop frames after them;
  the marker starts at the corner of \<open>A\<close> and at frame 99 has nearly reached \<open>B\<close>.
\<close>

lemma scenario_cities:
  "cities scenario_network =
     [(''A'', \<lparr>name = ''A'', coordinates = (8, 54)\<rparr>),
      (''B'', \<lparr>name = ''B'', coordinates = (13, 58)\<rparr>)]"
  by (simp add: scenario_network_def load_from_json_def add_city_def add_connection_def
        RailNetwork_init_def)

lemma scenario_init:
  "RailNetworkVisualizer_init scenario_network False 10 = Inr scenario_visualizer"
  unfolding scenario_visualizer_def by (rule init_projr) (simp add: scenario_connections)

lemma scenario_schedule:
  "total_frames scenario_visualizer = 100"
  "travel_frames scenario_visualizer = 100"
  "stop_frames scenario_visualizer 0 = 2"
  using init_fields(1,3,4) [OF scenario_init]
  by (simp_all add: travel_frames_def stop_frames_def py_int_def scenario_connections)

lemma scenario_frames:
  "update scenario_visualizer 0
     = Inr (scenario_visualizer\<lparr>current_time := 21636000000\<rparr>, Some (- 1, - 1))"
  "update scenario_visualizer 99
     = Inr (scenario_visualizer\<lparr>current_time := 21636000000\<rparr>, Some (49 / 50, 49 / 50))"
  "update scenario_visualizer 100
     = Inr (scenario_visualizer\<lparr>current_time := 21601200000\<rparr>, Some (1, 1))"
  "update scenario_visualizer 102 = Inr (scenario_visualizer, None)"
proof -
  have pos: "pos scenario_visualizer = [''A'' \<mapsto> (-1, -1), ''B'' \<mapsto> (1, 1)]"
    using init_fields(6) [OF scenario_init]
    by (simp add: scenario_cities normalize_coordinates_def)
  have clock: "current_time scenario_visualizer = 21600000000"
    using init_fields(5) [OF scenario_init] .
  have stops: "stop_durations scenario_visualizer = [1 / 5]"
    using init_fields(4) [OF scenario_init] by (simp add: scenario_connections)
  have hours: "timedelta_hours (1 / 100) = 36000000"
    using timedelta_hours_whole [of 36000000] by simp
  have minutes: "timedelta_minutes (1 / 50) = 1200000"
    by (simp add: timedelta_minutes_def round_half_even_def)
  note facts = update_def init_fields(1) [OF scenario_init] scenario_connections
    scenario_schedule pos clock stops hours minutes
  show "update scenario_visualizer 0
     = Inr (scenario_visualizer\<lparr>current_time := 21636000000\<rparr>, Some (- 1, - 1))"
    by (simp add: facts)
  show "update scenario_visualizer 99
     = Inr (scenario_visualizer\<lparr>current_time := 21636000000\<rparr>, Some (49 / 50, 49 / 50))"
    by (simp add: facts)
  show "update scenario_visualizer 100
     = Inr (scenario_visualizer\<lparr>current_time := 21601200000\<rparr>, Some (1, 1))"
    by (simp add: facts)
  show "update scenario_visualizer 102 = Inr (scenario_visualizer, None)"
    by (simp add: facts)
qed

subsection \<open>Travel frames per connection\<close>

lemma fraction_connections:
  "connections fraction_network = [\<lparr>start_city = ''A'', end_city = ''B'', duration = 7 / 5\<rparr>]"
  by (simp add: fraction_network_def load_from_json_def add_city_def add_connection_def
        RailNetwork_init_def)

lemma idle_connections: "connections idle_network = []"
  by (simp add: idle_network_def load_from_json_def add_city_def RailNetwork_init_def)

text \<open>
  Claim C4. For a network with at least one connection, every connection's
  travel-frame count is the total frame count \<open>D * 10\<close> divided by the number of
  connections with integer division: the travel sub-range of every connection has
  that length, and a network with the same number of connections and any other
  durations gets the same count.
\<close>

theorem travel_frames_even_split:
  assumes "connections net \<noteq> []"
      and "length (connections net') = length (connections net)"
  shows "\<exists>v v'. RailNetworkVisualizer_init net live D = Inr v \<and>
           RailNetworkVisualizer_init net' live' D = Inr v' \<and>
           travel_frames v = (D * 10) div int (length (connections net)) \<and>
           travel_frames v' = travel_frames v \<and>
           (\<forall>k < length (connections net).
              {f. in_travel v k f}
                = {cumulative v k ..< cumulative v k + (D * 10) div int (length (connections net))})"
proof -
  obtain v where v: "RailNetworkVisualizer_init net live D = Inr v"
    using init_total [OF assms(1)] by blast
  have "connections net' \<noteq> []" using assms by auto
  then obtain v' where v': "RailNetworkVisualizer_init net' live' D = Inr v'"
    using init_total by blast
  have tf: "travel_frames v = (D * 10) div int (length (connections net))"
    using init_fields(1,3) [OF v] by (simp add: travel_frames_def)
  have tf': "travel_frames v' = (D * 10) div int (length (connections net))"
    using init_fields(1,3) [OF v'] assms(2) by (simp add: travel_frames_def)
  have "\<forall>k < length (connections net).
          {f. in_travel v k f}
            = {cumulative v k ..< cumulative v k + (D * 10) div int (length (connections net))}"
    using tf by (auto simp: in_travel_def)
  then show ?thesis using v v' tf tf' by auto
qed

theorem travel_frames_even_split_witness:
  "\<exists>v v'. RailNetworkVisualizer_init line_network False 12 = Inr v \<and>
      RailNetworkVisualizer_init (line_network\<lparr>connections := map (\<lambda>c. c\<lparr>duration := 5\<rparr>) (connections line_network)\<rparr>) True 12 = Inr v' \<and>
      travel_frames v = 60 \<and> travel_frames v' = 60"
proof -
  let ?net' = "line_network\<lparr>connections := map (\<lambda>c. c\<lparr>duration := 5\<rparr>) (connections line_network)\<rparr>"
  have a: "connections line_network \<noteq> []" by (simp add: line_connections)
  have b: "length (connections ?net') = length (connections line_network)" by simp
  from travel_frames_even_split [OF a b, of False 12 True]
  show ?thesis by (auto simp: line_connections)
qed

subsection \<open>The empty schedule\<close>

text \<open>
  Claim C5, with the error the code raises. When the connection list is empty,
  computing the frames and stop durations raises \<open>ZeroDivisionError\<close>, from the
  division by the number of connections; the constructor passes the error on, so
  no visualizer is built and no frame is rendered.
\<close>

theorem empty_schedule_error:
  assumes "connections (rail_network v) = []"
  shows "calculate_frames_and_stops v = Inl ZeroDivisionError \<and>
         RailNetworkVisualizer_init (rail_network v) live D = Inl ZeroDivisionError \<and>
         visualize (rail_network v) live D = Inl ZeroDivisionError"
proof -
  have 1: "calculate_frames_and_stops v = Inl ZeroDivisionError"
    using assms by (simp add: calculate_frames_and_stops_def)
  obtain p where "build_pos (cities (rail_network v)) Map.empty = Inr p"
    using build_pos_total by blast
  then have 2: "RailNetworkVisualizer_init (rail_network v) live D = Inl ZeroDivisionError"
    using assms by (simp add: RailNetworkVisualizer_init_def calculate_frames_and_stops_def)
  then show ?thesis using 1 by (simp add: visualize_def)
qed

theorem empty_schedule_error_witness:
  "calculate_frames_and_stops (fraction_visualizer\<lparr>rail_network := idle_network\<rparr>)
     = Inl ZeroDivisionError \<and>
   RailNetworkVisualizer_init idle_network False 12 = Inl ZeroDivisionError \<and>
   visualize idle_network False 12 = Inl ZeroDivisionError"
  using empty_schedule_error [of "fraction_visualizer\<lparr>rail_network := idle_network\<rparr>" False 12]
  by (simp add: idle_connections)

text \<open>
  The error is not the \<open>InvalidScheduleError\<close> of the specification, which the source
  does not define.
\<close>

theorem empty_schedule_error_counterexample:
  "RailNetworkVisualizer_init idle_network False 12 = Inl ZeroDivisionError \<and>
   RailNetworkVisualizer_init idle_network False 12 \<noteq> Inl InvalidScheduleError"
proof -
  obtain p where "build_pos (cities idle_network) Map.empty = Inr p"
    using build_pos_total by blast
  then show ?thesis
    by (simp add: RailNetworkVisualizer_init_def calculate_frames_and_stops_def idle_connections)
qed

section \<open>Properties that depend on the machine's arithmetic\<close>

subsection \<open>The constructor and the loop, for any arithmetic\<close>

lemma try_then_simps [simp]:
  "try_then (Inl e) f = Inl e"
  "try_then (Inr x) f = f x"
  by (simp_all add: try_then_def)

lemma try_then_Inr:
  "try_then r f = Inr y \<longleftrightarrow> (\<exists>x. r = Inr x \<and> f x = Inr y)"
  by (cases r) simp_all


lemma init_fl_fields:
  assumes "RailNetworkVisualizer_init_fl a net live D = Inr v"
  shows "rail_network v = net"
    and "connections net \<noteq> []"
    and "total_frames v = D * 10"
    and "\<exists>total_travel_time total_stop_time stop_duration.
           fl_sum a (map (\<lambda>connection. fl_num a (duration connection)) (connections net))
             = Inr total_travel_time \<and>
           fl_mul a total_travel_time (fl_lit_0_2 a) = Inr total_stop_time \<and>
           fl_truediv a total_stop_time (PyInt (int (length (connections net)))) = Inr stop_duration \<and>
           stop_durations v = replicate (length (connections net)) stop_duration"
    and "current_time v = 21600000000"
    and "build_pos_fl a (cities net) Map.empty = Inr (pos v)"
  using assms
  by (auto simp: RailNetworkVisualizer_init_fl_def calculate_frames_and_stops_fl_def Let_def
        try_then_Inr split: sum.splits if_splits)


lemma clock_irrelevant_fl [simp]:
  "travel_frames (w\<lparr>current_time := t\<rparr>) = travel_frames w"
  "stop_frames_fl a (v\<lparr>current_time := t\<rparr>) i = stop_frames_fl a v i"
  by (simp_all add: travel_frames_def stop_frames_fl_def)

lemma cumulative_frames_at_0: "cumulative_frames_at tf sf 0 = 0"
  by (simp add: cumulative_frames_at_def)

lemma cumulative_frames_at_Suc:
  "cumulative_frames_at tf sf (Suc k) = cumulative_frames_at tf sf k + tf + sf k"
  by (simp add: cumulative_frames_at_def)

lemma cumulative_frames_at_mono:
  assumes "\<And>i. i < k \<Longrightarrow> 0 \<le> tf + sf i" and "j \<le> k"
  shows "cumulative_frames_at tf sf j \<le> cumulative_frames_at tf sf k"
  using assms
proof (induction k)
  case 0
  then show ?case by simp
next
  case (Suc k)
  show ?case
  proof (cases "j = Suc k")
    case True
    then show ?thesis by simp
  next
    case False
    then have "j \<le> k" using Suc.prems(2) by simp
    then have "cumulative_frames_at tf sf j \<le> cumulative_frames_at tf sf k"
      using Suc.prems(1) by (intro Suc.IH) simp_all
    moreover have "0 \<le> tf + sf k" using Suc.prems(1) [of k] by simp
    ultimately show ?thesis by (simp add: cumulative_frames_at_Suc)
  qed
qed

text \<open>
  With non-negative frame counts the ranges follow one another: a frame at or beyond
  the start of connection \<open>k\<close> lies in no range of an earlier connection.
\<close>

lemma earlier_ranges_passed_fl:
  assumes tf: "0 \<le> tf"
      and sf: "\<And>i. i < k \<Longrightarrow> 0 \<le> sf i"
      and f: "cumulative_frames_at tf sf k \<le> f"
      and j: "j < k"
  shows "\<not> travel_range tf sf j f \<and> \<not> stop_range tf sf j f"
proof -
  have "cumulative_frames_at tf sf (Suc j) \<le> cumulative_frames_at tf sf k"
  proof (rule cumulative_frames_at_mono)
    fix i assume "i < k"
    then show "0 \<le> tf + sf i" using tf sf [of i] by simp
  next
    show "Suc j \<le> k" using j by simp
  qed
  then have "cumulative_frames_at tf sf j + tf + sf j \<le> f"
    using f by (simp add: cumulative_frames_at_Suc)
  moreover have "0 \<le> sf j" using sf [OF j] .
  ultimately show ?thesis by (simp add: travel_range_def stop_range_def)
qed

lemma update_loop_fl_next:
  assumes "idx < length (stop_durations v)"
      and "stop_frames_fl a v idx = Inr s"
      and "\<not> (cum \<le> f \<and> f < cum + travel_frames v)"
      and "\<not> (cum + travel_frames v \<le> f \<and> f < cum + travel_frames v + s)"
  shows "update_loop_fl a v f idx (c # rest) cum
           = update_loop_fl a v f (Suc idx) rest (cum + travel_frames v + s)"
proof -
  have "update_loop_fl a v f idx (c # rest) cum
          = (if cum \<le> f \<and> f < cum + travel_frames v then
               update_loop_fl a v f idx (c # rest) cum
             else if cum + travel_frames v \<le> f \<and> f < cum + travel_frames v + s then
               update_loop_fl a v f idx (c # rest) cum
             else update_loop_fl a v f (Suc idx) rest (cum + travel_frames v + s))"
    using assms(1,2) by simp
  then show ?thesis using assms(3,4) by (simp only: if_False)
qed

lemma update_loop_fl_skip:
  assumes "idx + length xs \<le> length (stop_durations v)"
      and "\<And>j. idx \<le> j \<Longrightarrow> j < idx + length xs \<Longrightarrow> stop_frames_fl a v j = Inr (sf j)"
      and "\<And>j. idx \<le> j \<Longrightarrow> j < idx + length xs \<Longrightarrow>
             \<not> travel_range (travel_frames v) sf j f \<and> \<not> stop_range (travel_frames v) sf j f"
  shows "update_loop_fl a v f idx (xs @ ys) (cumulative_frames_at (travel_frames v) sf idx)
           = update_loop_fl a v f (idx + length xs) ys
               (cumulative_frames_at (travel_frames v) sf (idx + length xs))"
  using assms
proof (induction xs arbitrary: idx)
  case Nil
  show ?case by simp
next
  case (Cons x xs)
  have here: "\<not> travel_range (travel_frames v) sf idx f \<and> \<not> stop_range (travel_frames v) sf idx f"
    using Cons.prems(3) [of idx] by simp
  have idx: "idx < length (stop_durations v)"
    using Cons.prems(1) by simp
  have s: "stop_frames_fl a v idx = Inr (sf idx)"
    using Cons.prems(2) [of idx] by simp
  have rest: "update_loop_fl a v f (Suc idx) (xs @ ys) (cumulative_frames_at (travel_frames v) sf (Suc idx))
                = update_loop_fl a v f (Suc idx + length xs) ys
                    (cumulative_frames_at (travel_frames v) sf (Suc idx + length xs))"
    using Cons.prems by (intro Cons.IH) simp_all
  have "update_loop_fl a v f idx ((x # xs) @ ys) (cumulative_frames_at (travel_frames v) sf idx)
          = update_loop_fl a v f (Suc idx) (xs @ ys) (cumulative_frames_at (travel_frames v) sf (Suc idx))"
    using here idx s unfolding travel_range_def stop_range_def cumulative_frames_at_Suc append_Cons
    by (intro update_loop_fl_next) simp_all
  with rest show ?case by simp
qed


lemma update_fl_no_match:
  assumes "length (connections (rail_network v)) \<le> length (stop_durations v)"
      and "\<And>j. j < length (connections (rail_network v)) \<Longrightarrow> stop_frames_fl a v j = Inr (sf j)"
      and "\<And>j. j < length (connections (rail_network v)) \<Longrightarrow>
             \<not> travel_range (travel_frames v) sf j f \<and> \<not> stop_range (travel_frames v) sf j f"
  shows "update_fl a v f = (None, Inr v)"
proof -
  let ?cs = "connections (rail_network v)"
  have "update_loop_fl a v f 0 (?cs @ []) (cumulative_frames_at (travel_frames v) sf 0)
          = update_loop_fl a v f (0 + length ?cs) []
              (cumulative_frames_at (travel_frames v) sf (0 + length ?cs))"
  proof (rule update_loop_fl_skip)
    show "0 + length ?cs \<le> length (stop_durations v)" using assms(1) by simp
  next
    fix j assume "0 \<le> j" and "j < 0 + length ?cs"
    then show "stop_frames_fl a v j = Inr (sf j)" using assms(2) [of j] by simp
  next
    fix j assume "0 \<le> j" and "j < 0 + length ?cs"
    then show "\<not> travel_range (travel_frames v) sf j f \<and> \<not> stop_range (travel_frames v) sf j f"
      using assms(3) [of j] by simp
  qed
  then show ?thesis
    by (simp add: update_fl_def cumulative_frames_at_0)
qed

subsection \<open>Examples in arithmetic without rounding\<close>

lemma exact_arith_simps [simp]:
  "fl_num exact_arith x = PyFloat x"
  "fl_lit_0_2 exact_arith = PyFloat (1 / 5)"
  "fl_add exact_arith p q = Inr (PyFloat (num_value p + num_value q))"
  "fl_sub exact_arith p q = Inr (PyFloat (num_value p - num_value q))"
  "fl_mul exact_arith p q = Inr (PyFloat (num_value p * num_value q))"
  "fl_truediv exact_arith p q = Inr (PyFloat (num_value p / num_value q))"
  "fl_sum exact_arith ps = Inr (PyFloat (sum_list (map num_value ps)))"
  "fl_timedelta_hours exact_arith p = Inr (round_half_even (num_value p * 3600000000))"
  "fl_timedelta_minutes exact_arith p = Inr (round_half_even (num_value p * 60000000))"
  by (simp_all add: exact_arith_def)

lemma normalize_exact:
  "normalize_coordinates_fl exact_arith city 8 13 54 58 =
     Inr (PyFloat ((fst (coordinates city) - 8) / 5 * 2 - 1),
          PyFloat ((snd (coordinates city) - 54) / 4 * 2 - 1))"
  by (simp add: normalize_coordinates_fl_def normalize_axis_fl_def)

lemma build_pos_exact_total: "\<exists>p. build_pos_fl exact_arith cs m = Inr p"
proof (induction cs arbitrary: m)
  case Nil
  show ?case by simp
next
  case (Cons kc cs)
  obtain k city where kc: "kc = (k, city)" by (cases kc)
  show ?case unfolding kc by (simp add: normalize_exact Cons.IH)
qed

lemma init_exact_projr:
  assumes "connections net \<noteq> []"
  shows "RailNetworkVisualizer_init_fl exact_arith net live D
           = Inr (projr (RailNetworkVisualizer_init_fl exact_arith net live D))"
proof -
  obtain p where "build_pos_fl exact_arith (cities net) Map.empty = Inr p"
    using build_pos_exact_total by blast
  then have "\<exists>v. RailNetworkVisualizer_init_fl exact_arith net live D = Inr v"
    using assms
    by (simp add: RailNetworkVisualizer_init_fl_def calculate_frames_and_stops_fl_def Let_def)
  then show ?thesis by auto
qed

lemma init_exact_stops:
  assumes "RailNetworkVisualizer_init_fl exact_arith net live D = Inr v"
  shows "stop_durations v =
           replicate (length (connections net))
             (PyFloat (sum_list (map duration (connections net)) * (1 / 5)
                         / of_nat (length (connections net))))"
proof -
  have "sum_list (map (num_value \<circ> (\<lambda>connection. PyFloat (duration connection))) cs)
          = sum_list (map duration cs)" for cs :: "Connection list"
    by (induction cs) simp_all
  then show ?thesis
    using init_fl_fields(4) [OF assms] by auto
qed

lemma line_init_fl:
  "RailNetworkVisualizer_init_fl exact_arith line_network False 12 = Inr line_visualizer_fl"
  unfolding line_visualizer_fl_def by (rule init_exact_projr) (simp add: line_connections)

lemma line_frames_fl:
  "travel_frames line_visualizer_fl = 60"
  "stop_frames_fl exact_arith line_visualizer_fl 0 = Inr 3"
  "stop_frames_fl exact_arith line_visualizer_fl (Suc 0) = Inr 3"
  using init_fl_fields(1,3) [OF line_init_fl] init_exact_stops [OF line_init_fl]
  by (simp_all add: travel_frames_def stop_frames_fl_def py_int_def line_connections)

lemma line_stops_fl:
  "stop_durations line_visualizer_fl = [PyFloat (3 / 10), PyFloat (3 / 10)]"
  using init_exact_stops [OF line_init_fl] by (simp add: line_connections numeral_2_eq_2)

lemma fraction_init_fl:
  "RailNetworkVisualizer_init_fl exact_arith fraction_network False 10 = Inr fraction_visualizer_fl"
  unfolding fraction_visualizer_fl_def by (rule init_exact_projr) (simp add: fraction_connections)

lemma negative_init_fl:
  "RailNetworkVisualizer_init_fl exact_arith negative_network False 1 = Inr negative_visualizer_fl"
  unfolding negative_visualizer_fl_def by (rule init_exact_projr) (simp add: negative_connections)

lemma negative_frames_fl:
  "travel_frames negative_visualizer_fl = 10"
  "stop_frames_fl exact_arith negative_visualizer_fl 0 = Inr (- 3)"
  using init_fl_fields(1,3) [OF negative_init_fl] init_exact_stops [OF negative_init_fl]
  by (simp_all add: travel_frames_def stop_frames_fl_def py_int_def negative_connections)

lemma negative_pos_fl:
  "pos negative_visualizer_fl ''A'' = Some (PyFloat (- 1), PyFloat (- 1))"
  "pos negative_visualizer_fl ''B'' = Some (PyFloat 1, PyFloat 1)"
proof -
  have "pos negative_visualizer_fl
          = [''A'' \<mapsto> (PyFloat (- 1), PyFloat (- 1)), ''B'' \<mapsto> (PyFloat 1, PyFloat 1)]"
    using init_fl_fields(6) [OF negative_init_fl]
    by (simp add: negative_cities normalize_exact)
  then show "pos negative_visualizer_fl ''A'' = Some (PyFloat (- 1), PyFloat (- 1))"
    and "pos negative_visualizer_fl ''B'' = Some (PyFloat 1, PyFloat 1)"
    by simp_all
qed











subsection \<open>Travel frames\<close>




subsection \<open>Frames beyond the schedule\<close>

text \<open>
  Claim C7, for non-negative frame counts. Take any arithmetic and a network on
  which the constructor returned, at any value \<open>t\<close> of the clock; let \<open>sf i\<close> be the
  stop-frame count that line 175 computes for connection \<open>i\<close>, and let the
  travel-frame count and the stop-frame counts be non-negative. For every frame \<open>f\<close>
  at or beyond the sum over all connections of the travel and stop frame counts,
  \<open>update\<close> matches no connection: it plots no marker and returns the visualizer as
  it was, clock included.
\<close>

theorem update_beyond_schedule:
  assumes init: "RailNetworkVisualizer_init_fl a net live D = Inr v"
      and counts: "\<forall>i < length (connections net). stop_frames_fl a v i = Inr (sf i)"
      and tf: "0 \<le> travel_frames v"
      and sf: "\<forall>i < length (connections net). 0 \<le> sf i"
      and f: "cumulative_frames_at (travel_frames v) sf (length (connections net)) \<le> f"
  shows "update_fl a (v\<lparr>current_time := t\<rparr>) f = (None, Inr (v\<lparr>current_time := t\<rparr>))"
proof (rule update_fl_no_match [where sf = sf])
  let ?v = "v\<lparr>current_time := t\<rparr>"
  have net: "rail_network v = net" using init_fl_fields(1) [OF init] .
  show "length (connections (rail_network ?v)) \<le> length (stop_durations ?v)"
    using init_fl_fields(4) [OF init] net by auto
  show "stop_frames_fl a ?v j = Inr (sf j)" if "j < length (connections (rail_network ?v))" for j
    using counts that net by simp
  show "\<not> travel_range (travel_frames ?v) sf j f \<and> \<not> stop_range (travel_frames ?v) sf j f"
    if "j < length (connections (rail_network ?v))" for j
  proof -
    have j: "j < length (connections net)" using that net by simp
    have "\<not> travel_range (travel_frames v) sf j f \<and> \<not> stop_range (travel_frames v) sf j f"
      using tf sf f j
      by (intro earlier_ranges_passed_fl [where k = "length (connections net)"]) simp_all
    then show ?thesis by simp
  qed
qed

theorem update_beyond_schedule_witness:
  "update_fl exact_arith (line_visualizer_fl\<lparr>current_time := 21700000000\<rparr>) 126
     = (None, Inr (line_visualizer_fl\<lparr>current_time := 21700000000\<rparr>))"
proof -
  have counts: "\<forall>i < length (connections line_network).
                  stop_frames_fl exact_arith line_visualizer_fl i = Inr ((\<lambda>i. 3) i)"
    by (simp add: line_connections line_frames_fl less_Suc_eq)
  have tf: "0 \<le> travel_frames line_visualizer_fl"
    by (simp add: line_frames_fl)
  have sf: "\<forall>i < length (connections line_network). 0 \<le> (\<lambda>i. 3::int) i"
    by simp
  have f: "cumulative_frames_at (travel_frames line_visualizer_fl) (\<lambda>i. 3)
             (length (connections line_network)) \<le> 126"
    by (simp add: line_connections cumulative_frames_at_def line_frames_fl)
  show ?thesis
    using update_beyond_schedule [OF line_init_fl counts tf sf f] .
qed

text \<open>
  Without that condition the property fails. The connection of \<open>negative_network\<close>
  lasts \<open>-1.5\<close> hours, so with ten travel frames its stop-frame count is \<open>-3\<close> and the
  counts add up to 7; frame 8 is beyond that sum and still lies in the travel
  sub-range, so \<open>update\<close> plots a marker and moves the clock.
\<close>

theorem update_beyond_schedule_counterexample:
  "travel_frames negative_visualizer_fl = 10 \<and>
   stop_frames_fl exact_arith negative_visualizer_fl 0 = Inr (- 3) \<and>
   cumulative_frames_at 10 (\<lambda>i. - 3) 1 \<le> 8 \<and>
   update_fl exact_arith negative_visualizer_fl 8
     = (Some (PyFloat (3 / 5), PyFloat (3 / 5)),
        Inr (negative_visualizer_fl\<lparr>current_time := 21060000000\<rparr>))"
proof -
  have "cumulative_frames_at 10 (\<lambda>i. - 3) 1 = 7"
    by (simp add: cumulative_frames_at_def)
  moreover have "current_time negative_visualizer_fl = 21600000000"
    using init_fl_fields(5) [OF negative_init_fl] .
  moreover have "length (stop_durations negative_visualizer_fl) = 1"
    using init_exact_stops [OF negative_init_fl] by (simp add: negative_connections)
  moreover have "round_half_even (- 540000000) = - 540000000"
    by (simp add: round_half_even_def)
  ultimately show ?thesis
    using init_fl_fields(1) [OF negative_init_fl]
    by (simp add: update_fl_def negative_connections negative_frames_fl negative_pos_fl
          interpolate_def travel_timedelta_def advance_clock_def datetime_add_def)
qed

subsection \<open>Stop durations and stop frames\<close>

text \<open>
  Claim C3, with the rounding the code performs. Take any arithmetic and a network
  on which the constructor returned; it has at least one connection. Every
  connection has the same stop duration, the sum of all connection durations times
  \<open>0.2\<close>, divided by the number of connections, as the arithmetic computes it; the
  stop-frame count of a connection is \<open>int(stop_duration * 10)\<close>, and \<open>int\<close> of a float
  truncates toward zero.
\<close>

theorem stop_durations_and_frames:
  assumes init: "RailNetworkVisualizer_init_fl a net live D = Inr v"
  shows "connections net \<noteq> [] \<and>
         (\<exists>total_travel_time total_stop_time stop_duration.
            fl_sum a (map (\<lambda>connection. fl_num a (duration connection)) (connections net))
              = Inr total_travel_time \<and>
            fl_mul a total_travel_time (fl_lit_0_2 a) = Inr total_stop_time \<and>
            fl_truediv a total_stop_time (PyInt (int (length (connections net))))
              = Inr stop_duration \<and>
            stop_durations v = replicate (length (connections net)) stop_duration \<and>
            (\<forall>i < length (connections net).
               stop_durations v ! i = stop_duration \<and>
               stop_frames_fl a v i = try_then (fl_mul a stop_duration (PyInt 10)) to_int)) \<and>
         (\<forall>r. to_int (PyFloat r) = Inr (if 0 \<le> r then \<lfloor>r\<rfloor> else \<lceil>r\<rceil>))"
proof -
  obtain total_travel_time total_stop_time stop_duration where h:
    "fl_sum a (map (\<lambda>connection. fl_num a (duration connection)) (connections net))
       = Inr total_travel_time"
    "fl_mul a total_travel_time (fl_lit_0_2 a) = Inr total_stop_time"
    "fl_truediv a total_stop_time (PyInt (int (length (connections net)))) = Inr stop_duration"
    "stop_durations v = replicate (length (connections net)) stop_duration"
    using init_fl_fields(4) [OF init] by blast
  have "\<forall>i < length (connections net).
          stop_durations v ! i = stop_duration \<and>
          stop_frames_fl a v i = try_then (fl_mul a stop_duration (PyInt 10)) to_int"
    using h(4) by (simp add: stop_frames_fl_def)
  moreover have "\<forall>r. to_int (PyFloat r) = Inr (if 0 \<le> r then \<lfloor>r\<rfloor> else \<lceil>r\<rceil>)"
    by (simp add: py_int_def)
  ultimately show ?thesis
    using h init_fl_fields(2) [OF init] by blast
qed

theorem stop_durations_and_frames_witness:
  "stop_durations line_visualizer_fl = [PyFloat (3 / 10), PyFloat (3 / 10)] \<and>
   stop_frames_fl exact_arith line_visualizer_fl 0 = Inr 3 \<and>
   stop_frames_fl exact_arith line_visualizer_fl 1 = Inr 3 \<and>
   to_int (PyFloat (- 27 / 10)) = Inr (- 2)"
proof -
  from stop_durations_and_frames [OF line_init_fl]
  obtain stop_duration where h:
      "fl_truediv exact_arith
         (PyFloat (sum_list (map duration (connections line_network)) * (1 / 5)))
         (PyInt (int (length (connections line_network)))) = Inr stop_duration"
      "stop_durations line_visualizer_fl = replicate (length (connections line_network)) stop_duration"
      "\<forall>i < length (connections line_network).
         stop_frames_fl exact_arith line_visualizer_fl i
           = try_then (fl_mul exact_arith stop_duration (PyInt 10)) to_int"
      "\<forall>r. to_int (PyFloat r) = Inr (if 0 \<le> r then \<lfloor>r\<rfloor> else \<lceil>r\<rceil>)"
    by (auto simp: comp_def)
  have sd: "stop_duration = PyFloat (3 / 10)"
    using h(1) by (simp add: line_connections)
  have "to_int (PyFloat (- 27 / 10)) = Inr (- 2)"
    using h(4) [rule_format, of "- 27 / 10"] by simp
  then show ?thesis
    using h(2,3) by (simp add: sd line_connections numeral_2_eq_2 py_int_def)
qed

text \<open>
  The stop-frame count is not \<open>round(stop_duration * 10)\<close>: for one connection of 1.4
  hours the product is 2.8, which \<open>int\<close> truncates to 2 and \<open>round\<close> takes to 3.
\<close>

theorem stop_frames_round_counterexample:
  "stop_durations fraction_visualizer_fl = [PyFloat (7 / 25)] \<and>
   stop_frames_fl exact_arith fraction_visualizer_fl 0 = Inr 2 \<and>
   spec_stop_frames_fl exact_arith fraction_visualizer_fl 0 = Inr 3"
  using init_exact_stops [OF fraction_init_fl]
  by (simp add: fraction_connections stop_frames_fl_def spec_stop_frames_fl_def py_int_def
        round_half_even_def)

section \<open>Properties of the clock, the layout and the graph\<close>

subsection \<open>The clock and the marker over a run\<close>

lemma round_half_even_nonneg: "0 \<le> x \<Longrightarrow> 0 \<le> round_half_even x"
  by (simp add: round_half_even_def Let_def)

lemma timedelta_hours_nonneg: "0 \<le> h \<Longrightarrow> 0 \<le> timedelta_hours h"
  unfolding timedelta_hours_def by (rule round_half_even_nonneg) simp

lemma timedelta_minutes_nonneg: "0 \<le> m \<Longrightarrow> 0 \<le> timedelta_minutes m"
  unfolding timedelta_minutes_def by (rule round_half_even_nonneg) simp

lemma update_loop_clock:
  assumes "update_loop v f idx cs cum = Inr (v', m)"
      and "\<forall>c \<in> set cs. 0 < duration c"
      and "\<forall>x \<in> set (stop_durations v). 0 \<le> x"
  shows "\<exists>d. 0 \<le> d \<and> v' = v\<lparr>current_time := current_time v + d\<rparr>"
  using assms
proof (induction cs arbitrary: idx cum)
  case Nil
  then have "v' = v\<lparr>current_time := current_time v + 0\<rparr>" by simp
  then show ?case by blast
next
  case (Cons c cs)
  have idx: "idx < length (stop_durations v)"
    using Cons.prems(1) by (simp split: if_splits)
  consider (travel) "cum \<le> f \<and> f < cum + travel_frames v"
    | (stop) "\<not> (cum \<le> f \<and> f < cum + travel_frames v)"
        "cum + travel_frames v \<le> f \<and> f < cum + travel_frames v + stop_frames v idx"
    | (advance) "\<not> (cum \<le> f \<and> f < cum + travel_frames v)"
        "\<not> (cum + travel_frames v \<le> f \<and> f < cum + travel_frames v + stop_frames v idx)"
    by blast
  then show ?case
  proof cases
    case travel
    then have tf: "0 < travel_frames v" by simp
    have "0 \<le> duration c * (1 / of_int (travel_frames v))"
      using tf Cons.prems(2) by simp
    then have d: "0 \<le> timedelta_hours (duration c * (1 / of_int (travel_frames v)))"
      by (rule timedelta_hours_nonneg)
    have "v' = v\<lparr>current_time := current_time v
                   + timedelta_hours (duration c * (1 / of_int (travel_frames v)))\<rparr>"
      using Cons.prems(1) idx travel
      by (auto simp: Let_def split: option.splits prod.splits)
    then show ?thesis using d by blast
  next
    case stop
    have "0 \<le> stop_durations v ! idx" using Cons.prems(3) idx by simp
    then have d: "0 \<le> timedelta_minutes (stop_durations v ! idx / 10)"
      by (intro timedelta_minutes_nonneg) simp
    have "v' = v\<lparr>current_time := current_time v
                   + timedelta_minutes (stop_durations v ! idx / 10)\<rparr>"
      using Cons.prems(1) idx stop
      by (auto simp: Let_def split: option.splits prod.splits)
    then show ?thesis using d by blast
  next
    case advance
    have "update_loop v f (Suc idx) cs (cum + travel_frames v + stop_frames v idx) = Inr (v', m)"
      using Cons.prems(1) update_loop_next [OF idx advance] by simp
    then show ?thesis using Cons.prems(2,3) by (intro Cons.IH) simp_all
  qed
qed


lemma update_clock:
  assumes "update v f = Inr (v', m)"
      and "\<forall>c \<in> set (connections (rail_network v)). 0 < duration c"
      and "\<forall>x \<in> set (stop_durations v). 0 \<le> x"
  shows "\<exists>d. 0 \<le> d \<and> v' = v\<lparr>current_time := current_time v + d\<rparr>"
  using assms unfolding update_def by (rule update_loop_clock)

lemma clock_trace_sorted:
  assumes "\<forall>c \<in> set (connections (rail_network v)). 0 < duration c"
      and "\<forall>x \<in> set (stop_durations v). 0 \<le> x"
  shows "sorted (current_time v # clock_trace v fs)"
  using assms
proof (induction fs arbitrary: v)
  case Nil
  show ?case by simp
next
  case (Cons f fs)
  show ?case
  proof (cases "update v f")
    case (Inl e)
    then show ?thesis by simp
  next
    case (Inr r)
    obtain v' m where r: "r = (v', m)" by (cases r)
    obtain d where d: "0 \<le> d" "v' = v\<lparr>current_time := current_time v + d\<rparr>"
      using update_clock [OF Inr [unfolded r] Cons.prems] by blast
    have "sorted (current_time v' # clock_trace v' fs)"
      using Cons.prems d(2) by (intro Cons.IH) simp_all
    moreover have "current_time v \<le> current_time v'" using d by simp
    ultimately show ?thesis using Inr r by auto
  qed
qed

lemma update_loop_total:
  assumes "idx + length cs \<le> length (stop_durations v)"
      and "\<forall>c \<in> set cs. pos v (start_city c) \<noteq> None \<and> pos v (end_city c) \<noteq> None"
  shows "\<exists>d m. \<forall>t. update_loop (v\<lparr>current_time := t\<rparr>) f idx cs cum
                       = Inr (v\<lparr>current_time := t + d\<rparr>, m)"
  using assms
proof (induction cs arbitrary: idx cum)
  case Nil
  have "\<forall>t. update_loop (v\<lparr>current_time := t\<rparr>) f idx [] cum = Inr (v\<lparr>current_time := t + 0\<rparr>, None)"
    by simp
  then show ?case by blast
next
  case (Cons c cs)
  have idx: "idx < length (stop_durations v)" using Cons.prems(1) by simp
  obtain xs ys where s: "pos v (start_city c) = Some (xs, ys)"
    using Cons.prems(2) by auto
  obtain xe ye where e: "pos v (end_city c) = Some (xe, ye)"
    using Cons.prems(2) by auto
  consider (travel) "cum \<le> f \<and> f < cum + travel_frames v"
    | (stop) "\<not> (cum \<le> f \<and> f < cum + travel_frames v)"
        "cum + travel_frames v \<le> f \<and> f < cum + travel_frames v + stop_frames v idx"
    | (advance) "\<not> (cum \<le> f \<and> f < cum + travel_frames v)"
        "\<not> (cum + travel_frames v \<le> f \<and> f < cum + travel_frames v + stop_frames v idx)"
    by blast
  then show ?case
  proof cases
    case travel
    have "\<forall>t. update_loop (v\<lparr>current_time := t\<rparr>) f idx (c # cs) cum
            = Inr (v\<lparr>current_time := t + timedelta_hours (duration c * (1 / of_int (travel_frames v)))\<rparr>,
                   Some (xs + (xe - xs) * of_int (f - cum) / of_int (travel_frames v),
                         ys + (ye - ys) * of_int (f - cum) / of_int (travel_frames v)))"
      using idx travel s e by (simp add: Let_def)
    then show ?thesis by blast
  next
    case stop
    have "\<forall>t. update_loop (v\<lparr>current_time := t\<rparr>) f idx (c # cs) cum
            = Inr (v\<lparr>current_time := t + timedelta_minutes (stop_durations v ! idx / 10)\<rparr>,
                   Some (xe, ye))"
      using idx stop e by (simp add: Let_def)
    then show ?thesis by blast
  next
    case advance
    obtain d m where dm: "\<forall>t. update_loop (v\<lparr>current_time := t\<rparr>) f (Suc idx) cs
                              (cum + travel_frames v + stop_frames v idx)
                            = Inr (v\<lparr>current_time := t + d\<rparr>, m)"
      using Cons.IH [of "Suc idx" "cum + travel_frames v + stop_frames v idx"] Cons.prems
      by auto
    have "\<forall>t. update_loop (v\<lparr>current_time := t\<rparr>) f idx (c # cs) cum
            = Inr (v\<lparr>current_time := t + d\<rparr>, m)"
    proof
      fix t
      have "update_loop (v\<lparr>current_time := t\<rparr>) f idx (c # cs) cum
              = update_loop (v\<lparr>current_time := t\<rparr>) f (Suc idx) cs
                  (cum + travel_frames (v\<lparr>current_time := t\<rparr>)
                     + stop_frames (v\<lparr>current_time := t\<rparr>) idx)"
        using idx advance by (intro update_loop_next) simp_all
      then show "update_loop (v\<lparr>current_time := t\<rparr>) f idx (c # cs) cum
                   = Inr (v\<lparr>current_time := t + d\<rparr>, m)"
        using dm by simp
    qed
    then show ?thesis by blast
  qed
qed

lemma update_shape:
  assumes init: "RailNetworkVisualizer_init net live D = Inr v"
      and declared: "\<forall>c \<in> set (connections net).
                       start_city c \<in> city_names net \<and> end_city c \<in> city_names net"
  shows "\<exists>d m. \<forall>t. update (v\<lparr>current_time := t\<rparr>) f = Inr (v\<lparr>current_time := t + d\<rparr>, m)"
proof -
  have net: "rail_network v = net" using init_fields(1) [OF init] .
  have len: "0 + length (connections net) \<le> length (stop_durations v)"
    using init_fields(4) [OF init] by simp
  have "\<forall>c \<in> set (connections net). pos v (start_city c) \<noteq> None \<and> pos v (end_city c) \<noteq> None"
  proof
    fix c assume c: "c \<in> set (connections net)"
    have "pos v (start_city c) \<noteq> None"
      using pos_declared [OF init, of "start_city c"] declared c by auto
    moreover have "pos v (end_city c) \<noteq> None"
      using pos_declared [OF init, of "end_city c"] declared c by auto
    ultimately show "pos v (start_city c) \<noteq> None \<and> pos v (end_city c) \<noteq> None" ..
  qed
  from update_loop_total [OF len this, of f 0]
  show ?thesis by (simp add: update_def net)
qed


lemma clock_trace_length:
  assumes init: "RailNetworkVisualizer_init net live D = Inr v"
      and declared: "\<forall>c \<in> set (connections net).
                       start_city c \<in> city_names net \<and> end_city c \<in> city_names net"
  shows "length (clock_trace (v\<lparr>current_time := t\<rparr>) fs) = length fs"
proof (induction fs arbitrary: t)
  case Nil
  show ?case by simp
next
  case (Cons f fs)
  obtain d m where "update (v\<lparr>current_time := t\<rparr>) f = Inr (v\<lparr>current_time := t + d\<rparr>, m)"
    using update_shape [OF init declared, of f] by blast
  then show ?case using Cons.IH [of "t + d"] by simp
qed

lemma updates_shape:
  assumes init: "RailNetworkVisualizer_init net live D = Inr v"
      and declared: "\<forall>c \<in> set (connections net).
                       start_city c \<in> city_names net \<and> end_city c \<in> city_names net"
  shows "\<exists>t'. updates (v\<lparr>current_time := t\<rparr>) fs = Inr (v\<lparr>current_time := t'\<rparr>)"
proof (induction fs arbitrary: t)
  case Nil
  show ?case by (rule exI [of _ t]) simp
next
  case (Cons f fs)
  obtain d m where "update (v\<lparr>current_time := t\<rparr>) f = Inr (v\<lparr>current_time := t + d\<rparr>, m)"
    using update_shape [OF init declared, of f] by blast
  then show ?case using Cons.IH [of "t + d"] by simp
qed

lemma sum_list_pos_nonneg:
  fixes xs :: "real list"
  assumes "\<forall>x \<in> set xs. 0 < x"
  shows "0 \<le> sum_list xs"
  using assms by (induction xs) auto

text \<open>
  Claim C6. The constructor sets the clock to 06:00. When every connection
  duration is positive, the clock never decreases over a sequence of \<open>update\<close>
  calls, whatever the frames \<open>fs\<close> are; the frames \<open>0, 1, \<dots>, total_frames - 1\<close> of
  \<open>animate\<close> are one such sequence. When the endpoints are declared cities no
  call raises, so the clock is observed after every frame.
\<close>

theorem clock_monotone:
  assumes init: "RailNetworkVisualizer_init net live D = Inr v"
      and positive: "\<forall>c \<in> set (connections net). 0 < duration c"
  shows "current_time v = 21600000000 \<and>
         strftime_HM (current_time v) = (6, 0) \<and>
         sorted (current_time v # clock_trace v fs) \<and>
         ((\<forall>c \<in> set (connections net).
              start_city c \<in> city_names net \<and> end_city c \<in> city_names net)
            \<longrightarrow> length (clock_trace v fs) = length fs)"
proof -
  have net: "rail_network v = net" using init_fields(1) [OF init] .
  have start: "current_time v = 21600000000" using init_fields(5) [OF init] .
  have "0 \<le> sum_list (map duration (connections net))"
    using positive by (intro sum_list_pos_nonneg) auto
  then have stops: "\<forall>x \<in> set (stop_durations v). 0 \<le> x"
    using init_fields(4) [OF init] by auto
  have "sorted (current_time v # clock_trace v fs)"
    using positive stops net by (intro clock_trace_sorted) simp_all
  moreover have "length (clock_trace v fs) = length fs"
    if "\<forall>c \<in> set (connections net).
          start_city c \<in> city_names net \<and> end_city c \<in> city_names net"
    using clock_trace_length [OF init that, of "current_time v" fs] by simp
  ultimately show ?thesis
    using start by (simp add: strftime_HM_def)
qed

theorem clock_monotone_witness:
  "strftime_HM (current_time line_visualizer) = (6, 0) \<and>
   sorted (current_time line_visualizer # clock_trace line_visualizer (map int [0..<120])) \<and>
   length (clock_trace line_visualizer (map int [0..<120])) = 120"
proof -
  have positive: "\<forall>c \<in> set (connections line_network). 0 < duration c"
    by (simp add: line_connections)
  have declared: "\<forall>c \<in> set (connections line_network).
                    start_city c \<in> city_names line_network \<and> end_city c \<in> city_names line_network"
    by (simp add: line_connections line_cities city_names_def)
  have len: "length (map int [0..<120]) = 120" by simp
  from clock_monotone [OF line_init positive, of "map int [0..<120]"] declared
  show ?thesis unfolding len by blast
qed

text \<open>
  Claim C10. For a network with at least one connection whose endpoints are
  declared cities, take two runs that reach frame \<open>f\<close> after different sequences
  \<open>fs1\<close> and \<open>fs2\<close> of earlier \<open>update\<close> calls. Both runs return normally and
  \<open>update f\<close> computes the same marker in both; the clock is advanced by the same
  amount from the value each run had accumulated.
\<close>

theorem marker_independent_of_history:
  assumes init: "RailNetworkVisualizer_init net live D = Inr v"
      and declared: "\<forall>c \<in> set (connections net).
                       start_city c \<in> city_names net \<and> end_city c \<in> city_names net"
  shows "\<exists>v1 v2 w1 w2 m d.
           updates v fs1 = Inr v1 \<and> updates v fs2 = Inr v2 \<and>
           update v1 f = Inr (w1, m) \<and> update v2 f = Inr (w2, m) \<and>
           current_time w1 = current_time v1 + d \<and> current_time w2 = current_time v2 + d"
proof -
  obtain t1 where t1: "updates (v\<lparr>current_time := current_time v\<rparr>) fs1 = Inr (v\<lparr>current_time := t1\<rparr>)"
    using updates_shape [OF init declared] by blast
  obtain t2 where t2: "updates (v\<lparr>current_time := current_time v\<rparr>) fs2 = Inr (v\<lparr>current_time := t2\<rparr>)"
    using updates_shape [OF init declared] by blast
  obtain d m where dm: "\<forall>t. update (v\<lparr>current_time := t\<rparr>) f = Inr (v\<lparr>current_time := t + d\<rparr>, m)"
    using update_shape [OF init declared] by blast
  have "update (v\<lparr>current_time := t1\<rparr>) f = Inr (v\<lparr>current_time := t1 + d\<rparr>, m)"
    and "update (v\<lparr>current_time := t2\<rparr>) f = Inr (v\<lparr>current_time := t2 + d\<rparr>, m)"
    using dm by simp_all
  moreover have "updates v fs1 = Inr (v\<lparr>current_time := t1\<rparr>)"
    and "updates v fs2 = Inr (v\<lparr>current_time := t2\<rparr>)"
    using t1 t2 by simp_all
  ultimately show ?thesis
    by (intro exI [of _ "v\<lparr>current_time := t1\<rparr>"] exI [of _ "v\<lparr>current_time := t2\<rparr>"]
          exI [of _ "v\<lparr>current_time := t1 + d\<rparr>"] exI [of _ "v\<lparr>current_time := t2 + d\<rparr>"]
          exI [of _ m] exI [of _ d]) simp
qed

theorem marker_independent_of_history_witness:
  "\<exists>v1 v2 w1 w2 m d.
      updates line_visualizer [] = Inr v1 \<and> updates line_visualizer [0, 1, 2] = Inr v2 \<and>
      update v1 70 = Inr (w1, m) \<and> update v2 70 = Inr (w2, m) \<and>
      current_time w1 = current_time v1 + d \<and> current_time w2 = current_time v2 + d"
proof -
  have declared: "\<forall>c \<in> set (connections line_network).
                    start_city c \<in> city_names line_network \<and> end_city c \<in> city_names line_network"
    by (simp add: line_connections line_cities city_names_def)
  show ?thesis
    using marker_independent_of_history [OF line_init declared, of "[]" "[0, 1, 2]" 70] .
qed

subsection \<open>Coordinate normalization\<close>

lemma normalize_axis:
  fixes x lo hi :: real
  assumes "lo < hi"
  shows "lo \<le> x \<and> x \<le> hi \<longleftrightarrow> - 1 \<le> (x - lo) / (hi - lo) * 2 - 1 \<and> (x - lo) / (hi - lo) * 2 - 1 \<le> 1"
  using assms by (auto simp: field_simps)

lemma denormalize_axis:
  fixes u lo hi :: real
  assumes "lo < hi"
  shows "(lo + (u + 1) / 2 * (hi - lo) - lo) / (hi - lo) * 2 - 1 = u"
    and "lo + ((x - lo) / (hi - lo) * 2 - 1 + 1) / 2 * (hi - lo) = x"
  using assms by (auto simp: field_simps)

lemma normalize_parts:
  assumes x: "min_x < max_x" and y: "min_y < max_y"
  shows "bij_betw
           (\<lambda>p. projr (normalize_coordinates \<lparr>name = n, coordinates = p\<rparr> min_x max_x min_y max_y))
           ({min_x..max_x} \<times> {min_y..max_y}) ({- 1..1} \<times> {- 1..1})"
    and "\<forall>p. \<exists>q. normalize_coordinates \<lparr>name = n, coordinates = p\<rparr> min_x max_x min_y max_y = Inr q \<and>
                 spec_inverse_coordinates q min_x max_x min_y max_y = p"
    and "normalize_coordinates \<lparr>name = n, coordinates = (min_x, min_y)\<rparr> min_x max_x min_y max_y = Inr (- 1, - 1)"
    and "normalize_coordinates \<lparr>name = n, coordinates = (max_x, min_y)\<rparr> min_x max_x min_y max_y = Inr (1, - 1)"
    and "normalize_coordinates \<lparr>name = n, coordinates = (min_x, max_y)\<rparr> min_x max_x min_y max_y = Inr (- 1, 1)"
    and "normalize_coordinates \<lparr>name = n, coordinates = (max_x, max_y)\<rparr> min_x max_x min_y max_y = Inr (1, 1)"
    and "spec_inverse_coordinates (- 1, - 1) min_x max_x min_y max_y = (min_x, min_y)"
    and "spec_inverse_coordinates (1, - 1) min_x max_x min_y max_y = (max_x, min_y)"
    and "spec_inverse_coordinates (- 1, 1) min_x max_x min_y max_y = (min_x, max_y)"
    and "spec_inverse_coordinates (1, 1) min_x max_x min_y max_y = (max_x, max_y)"
    and "normalize_coordinates \<lparr>name = n, coordinates = ((8 + 13) / 2, (54 + 58) / 2)\<rparr> 8 13 54 58 = Inr (0, 0)"
proof -
  let ?f = "\<lambda>p. projr (normalize_coordinates \<lparr>name = n, coordinates = p\<rparr> min_x max_x min_y max_y)"
  let ?g = "\<lambda>q. spec_inverse_coordinates q min_x max_x min_y max_y"
  have f: "?f p = ((fst p - min_x) / (max_x - min_x) * 2 - 1, (snd p - min_y) / (max_y - min_y) * 2 - 1)" for p
    using x y by (simp add: normalize_coordinates_def)
  show "bij_betw ?f ({min_x..max_x} \<times> {min_y..max_y}) ({- 1..1} \<times> {- 1..1})"
  proof (rule bij_betw_byWitness [where f' = ?g])
    show "\<forall>p \<in> {min_x..max_x} \<times> {min_y..max_y}. ?g (?f p) = p"
      using denormalize_axis(2) [OF x] denormalize_axis(2) [OF y]
      by (simp add: f spec_inverse_coordinates_def)
    show "\<forall>q \<in> {- 1..1} \<times> {- 1..1}. ?f (?g q) = q"
      using denormalize_axis(1) [OF x] denormalize_axis(1) [OF y]
      by (simp add: f spec_inverse_coordinates_def)
    show "?f ` ({min_x..max_x} \<times> {min_y..max_y}) \<subseteq> {- 1..1} \<times> {- 1..1}"
      using normalize_axis [OF x] normalize_axis [OF y] by (auto simp: f)
    show "?g ` ({- 1..1} \<times> {- 1..1}) \<subseteq> {min_x..max_x} \<times> {min_y..max_y}"
    proof
      fix p assume "p \<in> ?g ` ({- 1..1} \<times> {- 1..1})"
      then obtain u w where uw: "- 1 \<le> u" "u \<le> 1" "- 1 \<le> w" "w \<le> 1" "p = ?g (u, w)"
        by auto
      have "min_x \<le> fst p \<and> fst p \<le> max_x"
        using uw(1,2) denormalize_axis(1) [OF x, of u] normalize_axis [OF x, of "fst p"]
        by (simp add: uw(5) spec_inverse_coordinates_def)
      moreover have "min_y \<le> snd p \<and> snd p \<le> max_y"
        using uw(3,4) denormalize_axis(1) [OF y, of w] normalize_axis [OF y, of "snd p"]
        by (simp add: uw(5) spec_inverse_coordinates_def)
      ultimately show "p \<in> {min_x..max_x} \<times> {min_y..max_y}"
        by (cases p) simp
    qed
  qed
  show "\<forall>p. \<exists>q. normalize_coordinates \<lparr>name = n, coordinates = p\<rparr> min_x max_x min_y max_y = Inr q \<and>
                 spec_inverse_coordinates q min_x max_x min_y max_y = p"
  proof
    fix p
    have "normalize_coordinates \<lparr>name = n, coordinates = p\<rparr> min_x max_x min_y max_y = Inr (?f p)"
      using x y by (simp add: normalize_coordinates_def)
    moreover have "?g (?f p) = p"
      using denormalize_axis(2) [OF x] denormalize_axis(2) [OF y]
      by (simp add: f spec_inverse_coordinates_def)
    ultimately show "\<exists>q. normalize_coordinates \<lparr>name = n, coordinates = p\<rparr> min_x max_x min_y max_y = Inr q \<and>
                 spec_inverse_coordinates q min_x max_x min_y max_y = p"
      by blast
  qed
  show "normalize_coordinates \<lparr>name = n, coordinates = (min_x, min_y)\<rparr> min_x max_x min_y max_y = Inr (- 1, - 1)"
    and "normalize_coordinates \<lparr>name = n, coordinates = (max_x, min_y)\<rparr> min_x max_x min_y max_y = Inr (1, - 1)"
    and "normalize_coordinates \<lparr>name = n, coordinates = (min_x, max_y)\<rparr> min_x max_x min_y max_y = Inr (- 1, 1)"
    and "normalize_coordinates \<lparr>name = n, coordinates = (max_x, max_y)\<rparr> min_x max_x min_y max_y = Inr (1, 1)"
    using x y by (simp_all add: normalize_coordinates_def)
  show "spec_inverse_coordinates (- 1, - 1) min_x max_x min_y max_y = (min_x, min_y)"
    and "spec_inverse_coordinates (1, - 1) min_x max_x min_y max_y = (max_x, min_y)"
    and "spec_inverse_coordinates (- 1, 1) min_x max_x min_y max_y = (min_x, max_y)"
    and "spec_inverse_coordinates (1, 1) min_x max_x min_y max_y = (max_x, max_y)"
    by (simp_all add: spec_inverse_coordinates_def)
  show "normalize_coordinates \<lparr>name = n, coordinates = ((8 + 13) / 2, (54 + 58) / 2)\<rparr> 8 13 54 58 = Inr (0, 0)"
    by (simp add: normalize_coordinates_def)
qed

text \<open>
  Claim C8. For bounds \<open>min_x < max_x\<close> and \<open>min_y < max_y\<close> normalization never
  raises and is a bijection from the bounding box onto the square \<open>[-1,1] \<times> [-1,1]\<close>;
  the inverse linear map undoes it at every point; the four corners of the box go
  to the four corners of the square and the inverse map brings them back; and with
  the default bounds the midpoint of the box goes to \<open>(0, 0)\<close>.
\<close>

theorem normalize_bijection:
  assumes x: "min_x < max_x" and y: "min_y < max_y"
  shows "bij_betw
           (\<lambda>p. projr (normalize_coordinates \<lparr>name = n, coordinates = p\<rparr> min_x max_x min_y max_y))
           ({min_x..max_x} \<times> {min_y..max_y}) ({- 1..1} \<times> {- 1..1}) \<and>
         (\<forall>p. \<exists>q. normalize_coordinates \<lparr>name = n, coordinates = p\<rparr> min_x max_x min_y max_y = Inr q \<and>
                 spec_inverse_coordinates q min_x max_x min_y max_y = p) \<and>
         normalize_coordinates \<lparr>name = n, coordinates = (min_x, min_y)\<rparr> min_x max_x min_y max_y
           = Inr (- 1, - 1) \<and>
         normalize_coordinates \<lparr>name = n, coordinates = (max_x, min_y)\<rparr> min_x max_x min_y max_y
           = Inr (1, - 1) \<and>
         normalize_coordinates \<lparr>name = n, coordinates = (min_x, max_y)\<rparr> min_x max_x min_y max_y
           = Inr (- 1, 1) \<and>
         normalize_coordinates \<lparr>name = n, coordinates = (max_x, max_y)\<rparr> min_x max_x min_y max_y
           = Inr (1, 1) \<and>
         spec_inverse_coordinates (- 1, - 1) min_x max_x min_y max_y = (min_x, min_y) \<and>
         spec_inverse_coordinates (1, - 1) min_x max_x min_y max_y = (max_x, min_y) \<and>
         spec_inverse_coordinates (- 1, 1) min_x max_x min_y max_y = (min_x, max_y) \<and>
         spec_inverse_coordinates (1, 1) min_x max_x min_y max_y = (max_x, max_y) \<and>
         normalize_coordinates \<lparr>name = n, coordinates = ((8 + 13) / 2, (54 + 58) / 2)\<rparr> 8 13 54 58
           = Inr (0, 0)"
  by (intro conjI) (rule normalize_parts [OF x y])+

theorem normalize_bijection_witness:
  "bij_betw (\<lambda>p. projr (normalize_coordinates \<lparr>name = ''A'', coordinates = p\<rparr> 8 13 54 58))
     ({8..13} \<times> {54..58}) ({- 1..1} \<times> {- 1..1}) \<and>
   normalize_coordinates \<lparr>name = ''A'', coordinates = (13, 54)\<rparr> 8 13 54 58 = Inr (1, - 1) \<and>
   spec_inverse_coordinates (1, - 1) 8 13 54 58 = (13, 54) \<and>
   normalize_coordinates \<lparr>name = ''A'', coordinates = (21 / 2, 56)\<rparr> 8 13 54 58 = Inr (0, 0)"
proof -
  have x: "(8::real) < 13" and y: "(54::real) < 58" by simp_all
  from normalize_bijection [OF x y, of "''A''"]
  show ?thesis by simp
qed

subsection \<open>The derived graph\<close>

lemma fold_add_node:
  "nodes (fold (\<lambda>(k, city). add_node (name city)) cs g) = nodes g \<union> (\<lambda>(k, city). name city) ` set cs"
  "adj (fold (\<lambda>(k, city). add_node (name city)) cs g) = adj g"
  by (induction cs arbitrary: g) (auto simp: add_node_def)

lemma edge_set_add_edge: "edge_set (add_edge u v w g) = insert {u, v} (edge_set g)"
proof -
  have "adj (add_edge u v w g) x y \<noteq> None \<longleftrightarrow>
          adj g x y \<noteq> None \<or> (x = u \<and> y = v) \<or> (x = v \<and> y = u)" for x y
    by (auto simp: add_edge_def Let_def)
  then have "edge_set (add_edge u v w g)
               = {{x, y} | x y. adj g x y \<noteq> None \<or> (x = u \<and> y = v) \<or> (x = v \<and> y = u)}"
    unfolding edge_set_def by simp
  also have "\<dots> = insert {u, v} (edge_set g)"
    unfolding edge_set_def by (auto simp: insert_commute)
  finally show ?thesis .
qed

lemma nodes_add_edge: "nodes (add_edge u v w g) = insert v (insert u (nodes g))"
  by (simp add: add_edge_def Let_def)

lemma fold_add_edge:
  "nodes (fold (\<lambda>c. add_edge (start_city c) (end_city c) (duration c)) cs g)
     = nodes g \<union> start_city ` set cs \<union> end_city ` set cs"
  "edge_set (fold (\<lambda>c. add_edge (start_city c) (end_city c) (duration c)) cs g)
     = edge_set g \<union> (\<lambda>c. {start_city c, end_city c}) ` set cs"
  by (induction cs arbitrary: g) (auto simp: nodes_add_edge edge_set_add_edge)

lemma edge_set_empty: "edge_set empty_graph = {}"
  by (simp add: edge_set_def empty_graph_def)

lemma build_graph_nodes:
  "nodes (graph (build_graph net))
     = nodes (graph net) \<union> city_names net
         \<union> start_city ` set (connections net) \<union> end_city ` set (connections net)"
  by (simp add: build_graph_def Let_def fold_add_edge fold_add_node city_names_def)

lemma build_graph_edges:
  "edge_set (graph (build_graph net))
     = edge_set (graph net) \<union> (\<lambda>c. {start_city c, end_city c}) ` set (connections net)"
proof -
  have "edge_set (fold (\<lambda>(k, city). add_node (name city)) (cities net) (graph net)) = edge_set (graph net)"
    by (simp add: edge_set_def fold_add_node)
  then show ?thesis
    by (simp add: build_graph_def Let_def fold_add_edge)
qed

lemma dict_set_keys: "fst ` set (dict_set k v kvs) = insert k (fst ` set kvs)"
proof (induction kvs)
  case Nil
  show ?case by simp
next
  case (Cons kv kvs)
  obtain k' v' where kv: "kv = (k', v')" by (cases kv)
  show ?case
  proof (cases "k' = k")
    case True
    then show ?thesis by (simp add: kv)
  next
    case False
    then show ?thesis using Cons.IH by (simp add: kv insert_commute)
  qed
qed

lemma dict_set_named:
  assumes "\<forall>(k', c) \<in> set kvs. name c = k'" and "name v = k"
  shows "\<forall>(k', c) \<in> set (dict_set k v kvs). name c = k'"
  using assms
proof (induction kvs)
  case Nil
  then show ?case by simp
next
  case (Cons kv kvs)
  obtain k' v' where kv: "kv = (k', v')" by (cases kv)
  have IH: "\<forall>(k', c) \<in> set (dict_set k v kvs). name c = k'"
    using Cons by simp
  show ?case
  proof (cases "k' = k")
    case True
    then show ?thesis using Cons.prems by (simp add: kv)
  next
    case False
    then show ?thesis using Cons.prems(1) IH by (simp add: kv)
  qed
qed

lemma fold_add_city:
  assumes "\<forall>(k, c) \<in> set (cities net). name c = k"
  shows "(\<forall>(k, c) \<in> set (cities (fold (\<lambda>(n, xy). add_city \<lparr>name = n, coordinates = xy\<rparr>) js net)). name c = k)
         \<and> fst ` set (cities (fold (\<lambda>(n, xy). add_city \<lparr>name = n, coordinates = xy\<rparr>) js net))
             = fst ` set (cities net) \<union> fst ` set js
         \<and> connections (fold (\<lambda>(n, xy). add_city \<lparr>name = n, coordinates = xy\<rparr>) js net) = connections net
         \<and> graph (fold (\<lambda>(n, xy). add_city \<lparr>name = n, coordinates = xy\<rparr>) js net) = graph net"
  using assms
proof (induction js arbitrary: net)
  case Nil
  then show ?case by simp
next
  case (Cons j js)
  obtain n xy where j: "j = (n, xy)" by (cases j)
  let ?net = "add_city \<lparr>name = n, coordinates = xy\<rparr> net"
  have inv: "\<forall>(k, c) \<in> set (cities ?net). name c = k"
    using dict_set_named [OF Cons.prems, of "\<lparr>name = n, coordinates = xy\<rparr>" n]
    by (simp add: add_city_def)
  have keys: "fst ` set (cities ?net) = insert n (fst ` set (cities net))"
    by (simp add: add_city_def dict_set_keys)
  have other: "connections ?net = connections net" "graph ?net = graph net"
    by (simp_all add: add_city_def)
  show ?case
    using Cons.IH [OF inv] keys other by (auto simp: j)
qed

lemma fold_add_connection:
  "connections (fold (\<lambda>(s, e, d). add_connection \<lparr>start_city = s, end_city = e, duration = d\<rparr>) js net)
     = connections net @ map (\<lambda>(s, e, d). \<lparr>start_city = s, end_city = e, duration = d\<rparr>) js"
  "cities (fold (\<lambda>(s, e, d). add_connection \<lparr>start_city = s, end_city = e, duration = d\<rparr>) js net)
     = cities net"
  "graph (fold (\<lambda>(s, e, d). add_connection \<lparr>start_city = s, end_city = e, duration = d\<rparr>) js net)
     = graph net"
  by (induction js arbitrary: net) (auto simp: add_connection_def)

lemma load_from_json_fields:
  "connections (load_from_json data RailNetwork_init)
     = map (\<lambda>(s, e, d). \<lparr>start_city = s, end_city = e, duration = d\<rparr>) (json_connections data)"
  "city_names (load_from_json data RailNetwork_init) = fst ` set (json_cities data)"
  "graph (load_from_json data RailNetwork_init) = empty_graph"
proof -
  have init: "\<forall>(k, c) \<in> set (cities RailNetwork_init). name c = k"
    by (simp add: RailNetwork_init_def)
  note c = fold_add_city [OF init, of "json_cities data"]
  show "connections (load_from_json data RailNetwork_init)
     = map (\<lambda>(s, e, d). \<lparr>start_city = s, end_city = e, duration = d\<rparr>) (json_connections data)"
    using c by (simp add: load_from_json_def Let_def fold_add_connection RailNetwork_init_def)
  show "graph (load_from_json data RailNetwork_init) = empty_graph"
    using c by (simp add: load_from_json_def Let_def fold_add_connection RailNetwork_init_def)
  have "city_names (load_from_json data RailNetwork_init)
          = (\<lambda>(k, city). name city) ` set (cities (fold (\<lambda>(n, xy). add_city \<lparr>name = n, coordinates = xy\<rparr>) (json_cities data) RailNetwork_init))"
    by (simp add: city_names_def load_from_json_def Let_def fold_add_connection)
  also have "\<dots> = fst ` set (cities (fold (\<lambda>(n, xy). add_city \<lparr>name = n, coordinates = xy\<rparr>) (json_cities data) RailNetwork_init))"
    using c by (intro image_cong) auto
  also have "\<dots> = fst ` set (json_cities data)"
    using c by (simp add: RailNetwork_init_def)
  finally show "city_names (load_from_json data RailNetwork_init) = fst ` set (json_cities data)" .
qed

text \<open>
  Claim C9, for connections between declared cities. Load a network from a JSON
  description whose \<open>N\<close> cities have distinct names and whose connections start and
  end at declared cities, and build its graph: the nodes are the \<open>N\<close> city names, and
  the edges are the endpoint pairs of the connections, as unordered pairs. A
  description with the same cities that lists the same connections in another order
  gives the same edges.
\<close>

theorem graph_round_trip:
  assumes unique: "distinct (map fst (json_cities data))"
      and declared: "\<forall>(s, e, d) \<in> set (json_connections data).
                       s \<in> fst ` set (json_cities data) \<and> e \<in> fst ` set (json_cities data)"
      and same_cities: "json_cities data' = json_cities data"
      and same_connections: "set (json_connections data') = set (json_connections data)"
  shows "nodes (graph (build_graph (load_from_json data RailNetwork_init)))
           = fst ` set (json_cities data) \<and>
         card (nodes (graph (build_graph (load_from_json data RailNetwork_init))))
           = length (json_cities data) \<and>
         edge_set (graph (build_graph (load_from_json data RailNetwork_init)))
           = (\<lambda>(s, e, d). {s, e}) ` set (json_connections data) \<and>
         edge_set (graph (build_graph (load_from_json data' RailNetwork_init)))
           = edge_set (graph (build_graph (load_from_json data RailNetwork_init)))"
proof -
  let ?net = "load_from_json data RailNetwork_init"
  have ends: "start_city ` set (connections ?net) \<subseteq> fst ` set (json_cities data)"
             "end_city ` set (connections ?net) \<subseteq> fst ` set (json_cities data)"
    using declared by (auto simp: load_from_json_fields(1))
  have nodes: "nodes (graph (build_graph ?net)) = fst ` set (json_cities data)"
    using ends unfolding build_graph_nodes load_from_json_fields(2,3) by (auto simp: empty_graph_def)
  have "card (fst ` set (json_cities data)) = length (map fst (json_cities data))"
    using distinct_card [OF unique] by simp
  then have card: "card (nodes (graph (build_graph ?net))) = length (json_cities data)"
    using nodes by simp
  have edges: "edge_set (graph (build_graph (load_from_json d RailNetwork_init)))
                 = (\<lambda>(s, e, d). {s, e}) ` set (json_connections d)" for d
  proof -
    have "(\<lambda>c. {start_city c, end_city c})
             ` set (map (\<lambda>(s, e, d). \<lparr>start_city = s, end_city = e, duration = d\<rparr>) (json_connections d))
            = (\<lambda>(s, e, d). {s, e}) ` set (json_connections d)"
      unfolding set_map image_image by (rule image_cong) auto
    then show ?thesis
      by (simp add: build_graph_edges load_from_json_fields(1,3) edge_set_empty)
  qed
  show ?thesis
    using nodes card edges [of data] edges [of data'] same_connections by simp
qed

theorem graph_round_trip_witness:
  "nodes (graph (build_graph line_network)) = {''A'', ''B'', ''C''} \<and>
   card (nodes (graph (build_graph line_network))) = 3 \<and>
   edge_set (graph (build_graph line_network)) = {{''A'', ''B''}, {''B'', ''C''}} \<and>
   edge_set (graph (build_graph (load_from_json
       \<lparr>json_cities = [(''A'', (8, 54)), (''B'', (10, 56)), (''C'', (13, 58))],
        json_connections = [(''B'', ''C'', 1), (''A'', ''B'', 2)]\<rparr> RailNetwork_init)))
     = edge_set (graph (build_graph line_network))"
proof -
  let ?d = "\<lparr>json_cities = [(''A'', (8, 54)), (''B'', (10, 56)), (''C'', (13, 58))],
             json_connections = [(''A'', ''B'', 2), (''B'', ''C'', 1)]\<rparr>"
  let ?d' = "\<lparr>json_cities = [(''A'', (8, 54)), (''B'', (10, 56)), (''C'', (13, 58))],
              json_connections = [(''B'', ''C'', 1), (''A'', ''B'', 2)]\<rparr>"
  have unique: "distinct (map fst (json_cities ?d))" by simp
  have declared: "\<forall>(s, e, d) \<in> set (json_connections ?d).
                    s \<in> fst ` set (json_cities ?d) \<and> e \<in> fst ` set (json_cities ?d)"
    by simp
  have same_cities: "json_cities ?d' = json_cities ?d" by simp
  have same_connections: "set (json_connections ?d') = set (json_connections ?d)"
    by (simp add: insert_commute)
  from graph_round_trip [OF unique declared same_cities same_connections]
  show ?thesis unfolding line_network_def by simp
qed

text \<open>
  \<open>add_edge\<close> adds an endpoint that is not a node yet, so a connection to an
  undeclared city yields more nodes than cities: one city and two nodes here.
\<close>

theorem graph_round_trip_counterexample:
  "length (cities dangling_network) = 1 \<and>
   nodes (graph (build_graph dangling_network)) = {''A'', ''B''} \<and>
   card (nodes (graph (build_graph dangling_network))) = 2"
proof -
  have "cities dangling_network = [(''A'', \<lparr>name = ''A'', coordinates = (8, 54)\<rparr>)]"
    by (simp add: dangling_network_def load_from_json_def add_city_def add_connection_def
          RailNetwork_init_def)
  moreover have "nodes (graph (build_graph dangling_network)) = {''A'', ''B''}"
    unfolding dangling_network_def build_graph_nodes load_from_json_fields
    by (auto simp: empty_graph_def)
  ultimately show ?thesis by simp
qed

end
